theory Spec2Isabelle
  imports Complex_Main "HOL-Library.Sublist"
begin

section \<open>Values shared by the controls of layout/controls.py\<close>

text \<open>
  Python exceptions are values: a function that can raise returns \<open>py_error + 'a\<close>
  (\<open>Inl\<close> is the raise). A function whose loop may run forever returns an
  \<open>option\<close> around that, \<open>None\<close> standing for "does not return".
\<close>

datatype py_error = IndexError | AttributeError

text \<open>\<open>Point\<close> of layout/screen.py: a named pair of integers, x first.\<close>

datatype Point = Point (point_x: int) (point_y: int)

text \<open>A fragment is a \<open>(style_str, text)\<close> tuple; a line is a list of them.\<close>

type_synonym fragment = "string \<times> string"

text \<open>
  The state of \<open>get_app()\<close> that the controls read: the render counter, the focused
  control and the control that is being searched. Controls are Python objects compared
  with \<open>==\<close> (identity), so each carries a number standing for its identity.
\<close>

record app =
  render_counter :: int
  current_control :: nat
  search_target_buffer_control :: nat

text \<open>
  The helpers imported from modules outside layout/controls.py
  (\<open>prompt_toolkit.utils.get_cwidth\<close>,
  \<open>formatted_text.utils.fragment_list_to_text\<close>,
  \<open>formatted_text.to_formatted_text\<close>) are parameters of the model. A display
  width is a natural number.
\<close>

record externals =
  get_cwidth :: "string \<Rightarrow> nat"
  fragment_list_to_text :: "fragment list \<Rightarrow> string"
  to_formatted_text :: "fragment list \<Rightarrow> fragment list"

text \<open>
  Modelled from the spec: an instance of the three helpers for text made of
  single-width characters (the display width of a text is its number of characters, the
  plain text of a line is the concatenation of its fragments' texts, a fragment list is
  already formatted text). It is used to run the model on concrete inputs only.
\<close>

definition plain_externals :: externals where
  "plain_externals =
     \<lparr> get_cwidth = length,
       fragment_list_to_text = (\<lambda>frs. concat (map snd frs)),
       to_formatted_text = (\<lambda>frs. frs) \<rparr>"

definition app0 :: app where
  "app0 = \<lparr> render_counter = 0, current_control = 0, search_target_buffer_control = 0 \<rparr>"

section \<open>UIContent\<close>

text \<open>
  \<open>line_heights\<close> is the dictionary \<open>_line_heights\<close>, keyed by
  \<open>(render_counter, lineno, width)\<close>. \<open>get_line\<close> is the callable given to the
  constructor; it may raise.
\<close>

record UIContent =
  get_line :: "int \<Rightarrow> py_error + fragment list"
  line_count :: int
  cursor_position :: Point
  menu_position :: "Point option"
  show_cursor :: bool
  line_heights :: "(int \<times> int \<times> int) \<rightharpoonup> int"

text \<open>
  \<open>UIContent.__init__\<close>: \<open>cursor_position or Point(x=0, y=0)\<close>; a \<open>Point\<close> is a
  non-empty tuple, so only \<open>None\<close> is replaced.
\<close>

definition UIContent_init ::
  "(int \<Rightarrow> py_error + fragment list) \<Rightarrow> int \<Rightarrow> Point option \<Rightarrow> Point option \<Rightarrow> bool \<Rightarrow> UIContent"
where
  "UIContent_init gl lc cp mp sc =
     \<lparr> get_line = gl, line_count = lc,
       cursor_position = (case cp of None \<Rightarrow> Point 0 0 | Some p \<Rightarrow> p),
       menu_position = mp, show_cursor = sc, line_heights = Map.empty \<rparr>"

text \<open>\<open>UIContent.__getitem__\<close>.\<close>

definition getitem :: "UIContent \<Rightarrow> int \<Rightarrow> py_error + fragment list" where
  "getitem self lineno =
     (if lineno < line_count self then get_line self lineno else Inl IndexError)"

text \<open>
  Two pieces of \<open>get_height_for_line\<close> that the source writes in line:
  the display width of the prefix that \<open>get_line_prefix(width, lineno, is_continuation)\<close>
  returns, and the assignment \<open>self._line_heights[key] = height\<close>.
\<close>

abbreviation prefix_cwidth ::
  "externals \<Rightarrow> (int \<Rightarrow> int \<Rightarrow> bool \<Rightarrow> fragment list) \<Rightarrow> int \<Rightarrow> int \<Rightarrow> bool \<Rightarrow> int"
where
  "prefix_cwidth ext get_line_prefix width lineno is_continuation \<equiv>
     int (get_cwidth ext (fragment_list_to_text ext (to_formatted_text ext
            (get_line_prefix width lineno is_continuation))))"

abbreviation cache_height :: "UIContent \<Rightarrow> int \<times> int \<times> int \<Rightarrow> int \<Rightarrow> UIContent" where
  "cache_height self key height \<equiv> self\<lparr>line_heights := (line_heights self)(key \<mapsto> height)\<rparr>"

text \<open>
  The \<open>while text_width > width\<close> loop of \<open>get_height_for_line\<close>. The prefix of a
  continuation row is asked for again in every round.
\<close>

partial_function (option) wrap_loop ::
  "externals \<Rightarrow> (int \<Rightarrow> int \<Rightarrow> bool \<Rightarrow> fragment list) \<Rightarrow> int \<Rightarrow> int \<Rightarrow> int \<Rightarrow> int \<Rightarrow> int option"
where
  "wrap_loop ext get_line_prefix lineno width height text_width =
     (if text_width > width then
        (if prefix_cwidth ext get_line_prefix width lineno True > width
         then Some (10 ^ 8)
         else wrap_loop ext get_line_prefix lineno width (height + 1)
                (text_width - width + prefix_cwidth ext get_line_prefix width lineno True))
      else Some height)"

text \<open>
  \<open>UIContent.get_height_for_line\<close>. The result is \<open>None\<close> when the loop does not
  end, \<open>Some (Inl e)\<close> when \<open>get_line\<close> raises, and otherwise the height with the
  content whose cache holds the new entry.
\<close>

definition get_height_for_line ::
  "app \<Rightarrow> externals \<Rightarrow> UIContent \<Rightarrow> int \<Rightarrow> int \<Rightarrow> (int \<Rightarrow> int \<Rightarrow> bool \<Rightarrow> fragment list) option
     \<Rightarrow> (py_error + int \<times> UIContent) option"
where
  "get_height_for_line ap ext self lineno width get_line_prefix_opt =
     (let get_line_prefix =
            (case get_line_prefix_opt of None \<Rightarrow> (\<lambda>_ _ _. []) | Some f \<Rightarrow> f);
          key = (render_counter ap, lineno, width)
      in case line_heights self key of
           Some h \<Rightarrow> Some (Inr (h, self))
         | None \<Rightarrow>
             (if width = 0
              then Some (Inr (10 ^ 8, cache_height self key (10 ^ 8)))
              else
                (case get_line self lineno of
                   Inl e \<Rightarrow> Some (Inl e)
                 | Inr frs \<Rightarrow>
                     (let text_width = int (get_cwidth ext (fragment_list_to_text ext frs));
                          prefix_width = prefix_cwidth ext get_line_prefix width lineno False;
                          text_width = text_width + prefix_width
                      in case wrap_loop ext get_line_prefix lineno width 1 text_width of
                           None \<Rightarrow> None
                         | Some height \<Rightarrow> Some (Inr (height, cache_height self key height))))))"

text \<open>
  A content with the single line \<open>abcdef\<close>, as a \<open>FormattedTextControl\<close> builds it
  (\<open>get_line = lambda i: fragment_lines[i]\<close> over a list of one line), the same content
  after one height has been cached, and a line prefix that is \<open>"> "\<close> on every row.
\<close>

definition example_content :: UIContent where
  "example_content =
     UIContent_init (\<lambda>i. if i = 0 \<or> i = - 1 then Inr [('''', ''abcdef'')] else Inl IndexError)
       1 None None True"

definition example_content_cached :: UIContent where
  "example_content_cached = cache_height example_content (0, 0, 3) 2"

definition example_prefix :: "int \<Rightarrow> int \<Rightarrow> bool \<Rightarrow> fragment list" where
  "example_prefix width lineno is_continuation = [('''', ''> '')]"

section \<open>DummyControl\<close>

text \<open>\<open>DummyControl.create_content\<close>: every line is empty, the line count is huge.\<close>

definition DummyControl_create_content :: "int \<Rightarrow> int option \<Rightarrow> UIContent" where
  "DummyControl_create_content width height =
     UIContent_init (\<lambda>i. Inr []) (100 ^ 100) None None True"

section \<open>FormattedTextControl\<close>

text \<open>
  A fragment of a \<open>FormattedTextControl\<close> may carry a mouse handler as a third item.
  A handler is a Python callable; it is named by a number (its identity), and calling it
  is a parameter of \<open>mouse_handler\<close>.
\<close>

type_synonym handler = nat

type_synonym mfragment = "string \<times> string \<times> handler option"

datatype MouseEventType = MOUSE_UP | MOUSE_DOWN | SCROLL_UP | SCROLL_DOWN

record MouseEvent =
  position :: Point
  event_type :: MouseEventType

text \<open>
  What a \<open>mouse_handler\<close> returns: \<open>NotImplemented\<close>, or \<open>None\<close> (the event was
  handled), which is also what a Python function returns when it ends without
  \<open>return\<close>.
\<close>

datatype mouse_result = NotImplemented | PyNone

text \<open>
  Modelled from the spec: \<open>SimpleCache\<close> of prompt_toolkit/cache.py, which is not
  under src/. It is a bounded cache: \<open>get(key, getter)\<close> returns the stored value on a
  hit; on a miss it takes the getter's value, stores it and, once more than \<open>maxsize\<close>
  entries are held, drops the oldest one. The entries are kept oldest first. The
  getters of this file cannot fail, so the value is passed in place of the getter.
\<close>

record ('k, 'v) SimpleCache =
  cache_data :: "('k \<times> 'v) list"
  maxsize :: nat

definition SimpleCache_init :: "nat \<Rightarrow> ('k, 'v) SimpleCache" where
  "SimpleCache_init n = \<lparr> cache_data = [], maxsize = n \<rparr>"

definition SimpleCache_get :: "('k, 'v) SimpleCache \<Rightarrow> 'k \<Rightarrow> 'v \<Rightarrow> 'v \<times> ('k, 'v) SimpleCache" where
  "SimpleCache_get c k getter_value =
     (case map_of (cache_data c) k of
        Some v \<Rightarrow> (v, c)
      | None \<Rightarrow>
          (let d = cache_data c @ [(k, getter_value)]
           in (getter_value, c\<lparr>cache_data := (if maxsize c < length d then tl d else d)\<rparr>)))"

text \<open>Python's \<open>xs[i]\<close> on a list: a negative index counts from the end.\<close>

definition py_index :: "'a list \<Rightarrow> int \<Rightarrow> py_error + 'a" where
  "py_index xs i =
     (if 0 \<le> i \<and> i < int (length xs) then Inr (xs ! nat i)
      else if i < 0 \<and> - int (length xs) \<le> i then Inr (xs ! nat (int (length xs) + i))
      else Inl IndexError)"

text \<open>
  The fields of a \<open>FormattedTextControl\<close> that \<open>create_content\<close> and
  \<open>mouse_handler\<close> use. \<open>ftc_get_cursor_position\<close> is \<open>None\<close> when no callable was
  given, and \<open>Some r\<close> for a callable that returns \<open>r\<close> (a \<open>Point\<close>, or \<open>None\<close>).
  \<open>ftc_fragments\<close> is \<open>_fragments\<close>. The key of the content cache is
  \<open>(tuple(fragments_with_mouse_handlers), width, cursor_position)\<close>.
\<close>

record 'ft FormattedTextControl =
  ftc_text :: 'ft
  ftc_style :: string
  ftc_show_cursor :: bool
  ftc_get_cursor_position :: "Point option option"
  ftc_content_cache :: "(mfragment list \<times> int \<times> Point option, UIContent) SimpleCache"
  ftc_fragment_cache :: "(int, mfragment list) SimpleCache"
  ftc_fragments :: "mfragment list option"

definition FormattedTextControl_init ::
  "'ft \<Rightarrow> string \<Rightarrow> bool \<Rightarrow> Point option option \<Rightarrow> 'ft FormattedTextControl"
where
  "FormattedTextControl_init txt style sc gcp =
     \<lparr> ftc_text = txt, ftc_style = style, ftc_show_cursor = sc,
       ftc_get_cursor_position = gcp,
       ftc_content_cache = SimpleCache_init 18,
       ftc_fragment_cache = SimpleCache_init 1,
       ftc_fragments = None \<rparr>"

text \<open>
  \<open>_get_formatted_text_cached\<close>. \<open>tft txt style\<close> stands for
  \<open>to_formatted_text(self.text, self.style)\<close>.
\<close>

definition get_formatted_text_cached ::
  "app \<Rightarrow> ('ft \<Rightarrow> string \<Rightarrow> mfragment list) \<Rightarrow> 'ft FormattedTextControl
     \<Rightarrow> mfragment list \<times> 'ft FormattedTextControl"
where
  "get_formatted_text_cached ap tft self =
     (let (v, c) = SimpleCache_get (ftc_fragment_cache self) (render_counter ap)
                     (tft (ftc_text self) (ftc_style self))
      in (v, self\<lparr>ftc_fragment_cache := c\<rparr>))"

text \<open>
  The local function \<open>get_cursor_position(fragment)\<close> of \<open>create_content\<close>:
  \<open>scan_line\<close> is the inner loop over one line, from column \<open>x\<close>, and
  \<open>scan_lines\<close> the outer loop over the lines, from row \<open>y\<close>.
  \<open>fragment in style_str\<close> is the substring test.
\<close>

fun scan_line :: "string \<Rightarrow> int \<Rightarrow> int \<Rightarrow> fragment list \<Rightarrow> Point option" where
  "scan_line marker y x [] = None"
| "scan_line marker y x ((style_str, txt) # rest) =
     (if sublist marker style_str then Some (Point x y)
      else scan_line marker y (x + int (length txt)) rest)"

fun scan_lines :: "string \<Rightarrow> int \<Rightarrow> fragment list list \<Rightarrow> Point option" where
  "scan_lines marker y [] = None"
| "scan_lines marker y (line # rest) =
     (case scan_line marker y 0 line of
        Some p \<Rightarrow> Some p
      | None \<Rightarrow> scan_lines marker (y + 1) rest)"

definition strip_mouse_handlers :: "mfragment list list \<Rightarrow> fragment list list" where
  "strip_mouse_handlers ls = map (map (\<lambda>(style_str, txt, h). (style_str, txt))) ls"

text \<open>
  \<open>FormattedTextControl.create_content\<close>. \<open>split_lines\<close> of formatted_text/utils.py
  is a parameter. In Python the content of a cache hit is the object stored earlier,
  its height cache included; here a content is a value.
\<close>

definition FormattedTextControl_create_content ::
  "app \<Rightarrow> ('ft \<Rightarrow> string \<Rightarrow> mfragment list) \<Rightarrow> (mfragment list \<Rightarrow> mfragment list list)
     \<Rightarrow> 'ft FormattedTextControl \<Rightarrow> int \<Rightarrow> int option
     \<Rightarrow> UIContent \<times> 'ft FormattedTextControl"
where
  "FormattedTextControl_create_content ap tft split_lines self0 width height =
     (let (fragments_with_mouse_handlers, self1) = get_formatted_text_cached ap tft self0;
          fragment_lines_with_mouse_handlers = split_lines fragments_with_mouse_handlers;
          fragment_lines = strip_mouse_handlers fragment_lines_with_mouse_handlers;
          self2 = self1\<lparr>ftc_fragments := Some fragments_with_mouse_handlers\<rparr>;
          cursor_pos =
            (case ftc_get_cursor_position self2 of
               Some r \<Rightarrow> r
             | None \<Rightarrow> scan_lines ''[SetCursorPosition]'' 0 fragment_lines);
          key = (fragments_with_mouse_handlers, width, cursor_pos);
          (content, cache) =
            SimpleCache_get (ftc_content_cache self2) key
              (UIContent_init (\<lambda>i. py_index fragment_lines i) (int (length fragment_lines))
                 cursor_pos (scan_lines ''[SetMenuPosition]'' 0 fragment_lines)
                 (ftc_show_cursor self2))
      in (content, self2\<lparr>ftc_content_cache := cache\<rparr>))"

text \<open>
  The loop of \<open>FormattedTextControl.mouse_handler\<close> over the fragments of the clicked
  line: the first fragment at which the running length reaches \<open>xpos\<close> decides; it
  gives its handler when it has one (\<open>len(item) >= 3\<close>), and the loop breaks otherwise.
\<close>

fun find_handler :: "int \<Rightarrow> int \<Rightarrow> mfragment list \<Rightarrow> handler option" where
  "find_handler xpos count [] = None"
| "find_handler xpos count ((style_str, txt, h) # rest) =
     (if xpos \<le> count + int (length txt) then h
      else find_handler xpos (count + int (length txt)) rest)"

text \<open>
  \<open>FormattedTextControl.mouse_handler\<close>. \<open>if self._fragments\<close> is false for
  \<open>None\<close> and for an empty list. \<open>call h e\<close> is the call \<open>handler(mouse_event)\<close>.
\<close>

definition FormattedTextControl_mouse_handler ::
  "(handler \<Rightarrow> MouseEvent \<Rightarrow> py_error + mouse_result) \<Rightarrow> (mfragment list \<Rightarrow> mfragment list list)
     \<Rightarrow> 'ft FormattedTextControl \<Rightarrow> MouseEvent \<Rightarrow> py_error + mouse_result"
where
  "FormattedTextControl_mouse_handler call split_lines self mouse_event =
     (case ftc_fragments self of
        None \<Rightarrow> Inr NotImplemented
      | Some frs \<Rightarrow>
          (if frs = [] then Inr NotImplemented
           else
             (case py_index (split_lines frs) (point_y (position mouse_event)) of
                Inl e \<Rightarrow> Inr NotImplemented
              | Inr fragments_of_line \<Rightarrow>
                  (case find_handler (point_x (position mouse_event)) 0 fragments_of_line of
                     Some h \<Rightarrow> call h mouse_event
                   | None \<Rightarrow> Inr NotImplemented))))"

text \<open>
  The invariant of the content cache: the content stored under a key has the cursor
  position of the key (or the origin when that is \<open>None\<close>) and the menu position that
  the scan of the key's fragments gives.
\<close>

definition content_cache_ok ::
  "(mfragment list \<Rightarrow> mfragment list list)
     \<Rightarrow> (mfragment list \<times> int \<times> Point option, UIContent) SimpleCache \<Rightarrow> bool"
where
  "content_cache_ok split_lines c =
     (\<forall>(key, v) \<in> set (cache_data c).
        cursor_position v = (case snd (snd key) of None \<Rightarrow> Point 0 0 | Some p \<Rightarrow> p) \<and>
        menu_position v =
          scan_lines ''[SetMenuPosition]'' 0 (strip_mouse_handlers (split_lines (fst key))))"

text \<open>
  What "the position where the marker is first encountered" means: row \<open>y\<close> is the
  first line with a fragment whose style holds the marker, that fragment is the first
  such one in the line, and \<open>x\<close> is the number of characters of the fragments before it.
\<close>

definition marked :: "string \<Rightarrow> fragment \<Rightarrow> bool" where
  "marked marker f = sublist marker (fst f)"

definition first_marked :: "string \<Rightarrow> fragment list list \<Rightarrow> int \<Rightarrow> int \<Rightarrow> bool" where
  "first_marked marker ls x y =
     (0 \<le> y \<and> nat y < length ls \<and>
      (\<forall>l \<in> set (take (nat y) ls). \<forall>f \<in> set l. \<not> marked marker f) \<and>
      (\<exists>j < length (ls ! nat y).
         marked marker (ls ! nat y ! j) \<and>
         (\<forall>f \<in> set (take j (ls ! nat y)). \<not> marked marker f) \<and>
         x = (\<Sum>f \<leftarrow> take j (ls ! nat y). int (length (snd f)))))"

definition unmarked :: "string \<Rightarrow> fragment list list \<Rightarrow> bool" where
  "unmarked marker ls = (\<forall>l \<in> set ls. \<forall>f \<in> set l. \<not> marked marker f)"

text \<open>
  Modelled from the spec: an instance of \<open>split_lines\<close> for a fragment list without
  line breaks (one line holding all fragments), and of \<open>to_formatted_text\<close> for a text
  that is already a fragment list. They are used to run the model on concrete inputs.
\<close>

definition one_line :: "mfragment list \<Rightarrow> mfragment list list" where
  "one_line frs = [frs]"

definition styled :: "mfragment list \<Rightarrow> string \<Rightarrow> mfragment list" where
  "styled frs style = frs"

definition example_control :: "mfragment list FormattedTextControl" where
  "example_control =
     FormattedTextControl_init
       [('''', ''ab'', None), (''[SetCursorPosition]'', '''', None), ('''', ''cd'', None),
        (''[SetMenuPosition]'', ''e'', None)]
       '''' True None"

section \<open>Buffer, Document and SearchState\<close>

text \<open>
  The classes of buffer.py, document.py, search.py, selection.py, lexers and
  layout/processors.py are not under src/. Their data is modelled from the spec's data
  model and external interfaces; what they compute is a parameter
  (\<open>document_ops\<close>, \<open>lexer\<close>, the processors).
\<close>

datatype SelectionType = CHARACTERS | LINES | BLOCK

datatype SearchDirection = FORWARD | BACKWARD

record SearchState =
  search_text :: string
  direction :: SearchDirection
  ignore_case :: bool

definition SearchState_init :: "string \<Rightarrow> SearchDirection \<Rightarrow> bool \<Rightarrow> SearchState" where
  "SearchState_init txt dir ic = \<lparr> search_text = txt, direction = dir, ignore_case = ic \<rparr>"

text \<open>
  Modelled from the spec: \<open>SearchState()\<close> without arguments. The constructor's
  defaults are declared in search.py: empty text, forward direction, case-sensitive.
\<close>

definition SearchState_default :: SearchState where
  "SearchState_default = SearchState_init [] FORWARD False"

text \<open>
  \<open>SearchState\<close> objects are mutable and shared by reference, so they live in a store:
  a reference is a number, \<open>objects\<close> gives the state of each object and
  \<open>next_free\<close> is the first reference not yet given out.
\<close>

record ss_heap =
  objects :: "nat \<Rightarrow> SearchState"
  next_free :: nat

definition new_SearchState :: "SearchState \<Rightarrow> ss_heap \<Rightarrow> nat \<times> ss_heap" where
  "new_SearchState v h =
     (next_free h, h\<lparr>objects := (objects h)(next_free h := v), next_free := Suc (next_free h)\<rparr>)"

text \<open>
  A document is an immutable snapshot: text, cursor offset and selection (the offset
  where the selection started, and its type).
\<close>

record Document =
  doc_text :: string
  doc_cursor_position :: int
  doc_selection :: "(int \<times> SelectionType) option"

text \<open>
  Modelled from the spec: the state of a \<open>Buffer\<close> that \<open>BufferControl\<close> reads and
  writes. \<open>complete_state\<close> holds \<open>complete_state.original_document.cursor_position\<close>
  while a completion is going on.
\<close>

record Buffer =
  buffer_text :: string
  buffer_cursor_position :: int
  selection_state :: "(int \<times> SelectionType) option"
  complete_state :: "int option"

text \<open>
  Modelled from the spec: \<open>buffer.document\<close>, \<open>buffer.exit_selection()\<close> (clear any
  selection), \<open>buffer.start_selection(selection_type)\<close> (start a selection at the
  cursor), the assignment \<open>buffer.cursor_position = i\<close>, and the range
  \<open>[start, stop)\<close> of the selection between its origin and the cursor.
\<close>

definition buffer_document :: "Buffer \<Rightarrow> Document" where
  "buffer_document b =
     \<lparr> doc_text = buffer_text b, doc_cursor_position = buffer_cursor_position b,
       doc_selection = selection_state b \<rparr>"

definition exit_selection :: "Buffer \<Rightarrow> Buffer" where
  "exit_selection b = b\<lparr>selection_state := None\<rparr>"

definition start_selection :: "SelectionType \<Rightarrow> Buffer \<Rightarrow> Buffer" where
  "start_selection selection_type b =
     b\<lparr>selection_state := Some (buffer_cursor_position b, selection_type)\<rparr>"

definition set_cursor_position :: "int \<Rightarrow> Buffer \<Rightarrow> Buffer" where
  "set_cursor_position i b = b\<lparr>buffer_cursor_position := i\<rparr>"

definition selection_range :: "Buffer \<Rightarrow> (int \<times> int) option" where
  "selection_range b =
     (case selection_state b of
        None \<Rightarrow> None
      | Some (origin, selection_type) \<Rightarrow>
          Some (min origin (buffer_cursor_position b), max origin (buffer_cursor_position b)))"

text \<open>
  The operations of \<open>Document\<close> and \<open>Buffer\<close> that compute something are parameters.
  \<open>find_boundaries_of_current_word\<close> gives \<open>(start, end)\<close> relative to the cursor.
\<close>

record document_ops =
  translate_row_col_to_index :: "Document \<Rightarrow> int \<Rightarrow> int \<Rightarrow> int"
  translate_index_to_position :: "Document \<Rightarrow> int \<Rightarrow> int \<times> int"
  find_boundaries_of_current_word :: "Document \<Rightarrow> int \<times> int"
  document_line_count :: "Document \<Rightarrow> int"
  cursor_position_row :: "Document \<Rightarrow> int"
  cursor_position_col :: "Document \<Rightarrow> int"
  document_for_search :: "Buffer \<Rightarrow> SearchState \<Rightarrow> Document"

record lexer =
  lex_document :: "Document \<Rightarrow> int \<Rightarrow> py_error + fragment list"
  invalidation_hash :: nat

text \<open>
  The input and the result of a processor's \<open>apply_transformation\<close>. The control
  itself is passed by its identity.
\<close>

record TransformationInput =
  ti_buffer_control :: nat
  ti_document :: Document
  ti_lineno :: int
  ti_source_to_display :: "int \<Rightarrow> int"
  ti_fragments :: "fragment list"
  ti_width :: int
  ti_height :: "int option"

record Transformation =
  tr_fragments :: "fragment list"
  tr_source_to_display :: "int \<Rightarrow> int"
  tr_display_to_source :: "int \<Rightarrow> int"

type_synonym processor = "TransformationInput \<Rightarrow> Transformation"

section \<open>BufferControl\<close>

text \<open>The named tuple \<open>_ProcessedLine\<close>.\<close>

record ProcessedLine =
  pl_fragments :: "fragment list"
  pl_source_to_display :: "int \<Rightarrow> int"
  pl_display_to_source :: "int \<Rightarrow> int"

text \<open>
  Of a \<open>SearchBufferControl\<close>, a \<open>BufferControl\<close> uses the buffer and the reference
  \<open>searcher_search_state\<close>.
\<close>

record SearchBufferControl =
  sbc_buffer :: Buffer
  searcher_search_state :: nat

text \<open>
  The fields of a \<open>BufferControl\<close>. \<open>bc_id\<close> is the identity of the object.
  \<open>preview_search\<close> and \<open>focus_on_click\<close> hold the current value of the filter of
  that name. \<open>bc_menu_position\<close> is \<open>None\<close> when no callable was given and
  \<open>Some r\<close> for a callable that returns \<open>r\<close>. \<open>search_buffer_control\<close> is what
  the property of that name returns. \<open>last_click_timestamp\<close> and
  \<open>last_get_processed_line\<close> are the private fields of those names; a time stamp is a
  real number of seconds (the floating point of \<open>time.time()\<close> is not modelled).
\<close>

record BufferControl =
  bc_id :: nat
  bc_buffer :: Buffer
  input_processors :: "processor list option"
  include_default_input_processors :: bool
  default_input_processors :: "processor list"
  preview_search :: bool
  focus_on_click :: bool
  bc_lexer :: lexer
  bc_menu_position :: "int option option"
  search_buffer_control :: "SearchBufferControl option"
  bc_fragment_cache :: "(string \<times> nat, int \<Rightarrow> py_error + fragment list) SimpleCache"
  last_click_timestamp :: "real option"
  last_get_processed_line :: "(int \<Rightarrow> py_error + ProcessedLine) option"

text \<open>
  The property \<open>search_state\<close>: the shared object of the search control when there is
  one, and a new \<open>SearchState()\<close> otherwise.
\<close>

definition search_state :: "BufferControl \<Rightarrow> ss_heap \<Rightarrow> nat \<times> ss_heap" where
  "search_state self heap =
     (case search_buffer_control self of
        Some sbc \<Rightarrow> (searcher_search_state sbc, heap)
      | None \<Rightarrow> new_SearchState SearchState_default heap)"

text \<open>\<open>_get_formatted_text_for_line_func\<close>.\<close>

definition get_formatted_text_for_line_func ::
  "BufferControl \<Rightarrow> Document \<Rightarrow> (int \<Rightarrow> py_error + fragment list) \<times> BufferControl"
where
  "get_formatted_text_for_line_func self document =
     (let (v, c) = SimpleCache_get (bc_fragment_cache self)
                     (doc_text document, invalidation_hash (bc_lexer self))
                     (lex_document (bc_lexer self) document)
      in (v, self\<lparr>bc_fragment_cache := c\<rparr>))"

text \<open>
  \<open>_create_get_processed_line_func\<close>. \<open>merge_processors\<close> of layout/processors.py
  is a parameter. The local \<open>transform\<close> starts the pipeline from the identity map; the
  cursor column it computes is not used afterwards.
\<close>

definition merged_processor :: "(processor list \<Rightarrow> processor) \<Rightarrow> BufferControl \<Rightarrow> processor" where
  "merged_processor merge_processors self =
     (let ps = (case input_processors self of None \<Rightarrow> [] | Some ps \<Rightarrow> ps);
          ps = (if include_default_input_processors self
                then default_input_processors self @ ps else ps)
      in merge_processors ps)"

definition transform ::
  "(processor list \<Rightarrow> processor) \<Rightarrow> BufferControl \<Rightarrow> Document \<Rightarrow> int \<Rightarrow> int option
     \<Rightarrow> int \<Rightarrow> fragment list \<Rightarrow> ProcessedLine"
where
  "transform merge_processors self document width height lineno frs =
     (let transformation =
            merged_processor merge_processors self
              \<lparr> ti_buffer_control = bc_id self, ti_document = document, ti_lineno = lineno,
                ti_source_to_display = (\<lambda>i. i), ti_fragments = frs,
                ti_width = width, ti_height = height \<rparr>
      in \<lparr> pl_fragments = tr_fragments transformation,
           pl_source_to_display = tr_source_to_display transformation,
           pl_display_to_source = tr_display_to_source transformation \<rparr>)"

text \<open>
  The closure \<open>get_processed_line\<close> keeps a dictionary of the lines it has processed.
  \<open>get_processed_line_memo\<close> is that closure with its dictionary made explicit;
  \<open>get_processed_line\<close> is the function it computes (see
  \<open>get_processed_line_memo_value\<close>), by which the closure is represented.
\<close>

definition get_processed_line ::
  "(int \<Rightarrow> py_error + fragment list) \<Rightarrow> (int \<Rightarrow> fragment list \<Rightarrow> ProcessedLine)
     \<Rightarrow> int \<Rightarrow> py_error + ProcessedLine"
where
  "get_processed_line lexed_line tf i =
     (case lexed_line i of Inl e \<Rightarrow> Inl e | Inr frs \<Rightarrow> Inr (tf i frs))"

definition get_processed_line_memo ::
  "(int \<Rightarrow> py_error + fragment list) \<Rightarrow> (int \<Rightarrow> fragment list \<Rightarrow> ProcessedLine)
     \<Rightarrow> (int \<rightharpoonup> ProcessedLine) \<Rightarrow> int \<Rightarrow> (py_error + ProcessedLine) \<times> (int \<rightharpoonup> ProcessedLine)"
where
  "get_processed_line_memo lexed_line tf cache i =
     (case cache i of
        Some pl \<Rightarrow> (Inr pl, cache)
      | None \<Rightarrow>
          (case lexed_line i of
             Inl e \<Rightarrow> (Inl e, cache)
           | Inr frs \<Rightarrow> (Inr (tf i frs), cache(i \<mapsto> tf i frs))))"

definition memo_ok ::
  "(int \<Rightarrow> py_error + fragment list) \<Rightarrow> (int \<Rightarrow> fragment list \<Rightarrow> ProcessedLine)
     \<Rightarrow> (int \<rightharpoonup> ProcessedLine) \<Rightarrow> bool"
where
  "memo_ok lexed_line tf cache =
     (\<forall>i pl. cache i = Some pl \<longrightarrow> get_processed_line lexed_line tf i = Inr pl)"

definition create_get_processed_line_func ::
  "(processor list \<Rightarrow> processor) \<Rightarrow> BufferControl \<Rightarrow> Document \<Rightarrow> int \<Rightarrow> int option
     \<Rightarrow> (int \<Rightarrow> py_error + ProcessedLine) \<times> BufferControl"
where
  "create_get_processed_line_func merge_processors self document width height =
     (let (lexed_line, self1) = get_formatted_text_for_line_func self document
      in (get_processed_line lexed_line (transform merge_processors self document width height),
          self1))"

text \<open>
  \<open>BufferControl.create_content\<close>, in three parts: whether the search preview is
  shown, the document to show, and the rest of the function from the call of
  \<open>_create_get_processed_line_func\<close> on. \<open>translate_rowcol\<close> and
  \<open>content_get_line\<close> are the local functions \<open>translate_rowcol\<close> and \<open>get_line\<close>.
\<close>

definition preview_now :: "app \<Rightarrow> BufferControl \<Rightarrow> bool \<Rightarrow> bool" where
  "preview_now ap self preview_search_arg =
     (preview_search_arg \<or>
      (preview_search self \<and>
       (case search_buffer_control self of
          None \<Rightarrow> False
        | Some sc \<Rightarrow> buffer_text (sbc_buffer sc) \<noteq> []) \<and>
       search_target_buffer_control ap = bc_id self))"

definition document_to_show ::
  "app \<Rightarrow> document_ops \<Rightarrow> BufferControl \<Rightarrow> ss_heap \<Rightarrow> bool \<Rightarrow> (py_error + Document) \<times> ss_heap"
where
  "document_to_show ap dops self heap preview_search_arg =
     (if preview_now ap self preview_search_arg then
        (let (ss, heap1) = search_state self heap
         in case search_buffer_control self of
              None \<Rightarrow> (Inl AttributeError, heap1)
            | Some sc \<Rightarrow>
                (Inr (document_for_search dops (bc_buffer self)
                        (SearchState_init (buffer_text (sbc_buffer sc))
                           (direction (objects heap1 ss)) (ignore_case (objects heap1 ss)))),
                 heap1))
      else (Inr (buffer_document (bc_buffer self)), heap))"

definition translate_rowcol ::
  "(int \<Rightarrow> py_error + ProcessedLine) \<Rightarrow> int \<Rightarrow> int \<Rightarrow> py_error + Point"
where
  "translate_rowcol gpl row col =
     (case gpl row of Inl e \<Rightarrow> Inl e | Inr pl \<Rightarrow> Inr (Point (pl_source_to_display pl col) row))"

definition content_get_line ::
  "(int \<Rightarrow> py_error + ProcessedLine) \<Rightarrow> int \<Rightarrow> py_error + fragment list"
where
  "content_get_line gpl i =
     (case gpl i of Inl e \<Rightarrow> Inl e | Inr pl \<Rightarrow> Inr (pl_fragments pl @ [('''', '' '')]))"

definition render_document ::
  "app \<Rightarrow> document_ops \<Rightarrow> (processor list \<Rightarrow> processor) \<Rightarrow> BufferControl \<Rightarrow> Document
     \<Rightarrow> int \<Rightarrow> int option \<Rightarrow> (py_error + UIContent) \<times> BufferControl"
where
  "render_document ap dops merge_processors self document width height =
     (let (gpl, self1) = create_get_processed_line_func merge_processors self document width height;
          self2 = self1\<lparr>last_get_processed_line := Some gpl\<rparr>;
          buffer = bc_buffer self2
      in case translate_rowcol gpl (cursor_position_row dops document)
                (cursor_position_col dops document) of
           Inl e \<Rightarrow> (Inl e, self2)
         | Inr cp \<Rightarrow>
             (let content = UIContent_init (content_get_line gpl)
                              (document_line_count dops document) (Some cp) None True
              in if current_control ap = bc_id self2 then
                   (case (case bc_menu_position self2 of None \<Rightarrow> None | Some r \<Rightarrow> r) of
                      Some mp \<Rightarrow>
                        (let (menu_row, menu_col) =
                               translate_index_to_position dops (buffer_document buffer) mp
                         in case translate_rowcol gpl menu_row menu_col of
                              Inl e \<Rightarrow> (Inl e, self2)
                            | Inr p \<Rightarrow> (Inr (content\<lparr>menu_position := Some p\<rparr>), self2))
                    | None \<Rightarrow>
                        (case complete_state buffer of
                           Some original \<Rightarrow>
                             (let (menu_row, menu_col) =
                                    translate_index_to_position dops (buffer_document buffer)
                                      (min (buffer_cursor_position buffer) original)
                              in case translate_rowcol gpl menu_row menu_col of
                                   Inl e \<Rightarrow> (Inl e, self2)
                                 | Inr p \<Rightarrow> (Inr (content\<lparr>menu_position := Some p\<rparr>), self2))
                         | None \<Rightarrow> (Inr (content\<lparr>menu_position := None\<rparr>), self2)))
                 else (Inr content, self2)))"

definition BufferControl_create_content ::
  "app \<Rightarrow> document_ops \<Rightarrow> (processor list \<Rightarrow> processor) \<Rightarrow> BufferControl \<Rightarrow> ss_heap
     \<Rightarrow> int \<Rightarrow> int option \<Rightarrow> bool \<Rightarrow> (py_error + UIContent) \<times> BufferControl \<times> ss_heap"
where
  "BufferControl_create_content ap dops merge_processors self heap width height preview_search_arg =
     (case document_to_show ap dops self heap preview_search_arg of
        (Inl e, heap1) \<Rightarrow> (Inl e, self, heap1)
      | (Inr document, heap1) \<Rightarrow>
          (let (r, self1) = render_document ap dops merge_processors self document width height
           in (r, self1, heap1)))"

text \<open>
  \<open>BufferControl.mouse_handler\<close>. \<open>now\<close> is what \<open>time.time()\<close> returns during the
  call. \<open>select_on_release\<close> is the first \<open>if\<close> of the \<open>MOUSE_UP\<close> branch,
  \<open>is_double_click\<close> the value of \<open>double_click\<close> (a time stamp that is \<open>None\<close> or
  \<open>0.0\<close> is false), and \<open>select_word\<close> the body of \<open>if double_click\<close>. A branch that
  ends without \<open>return\<close> returns \<open>None\<close>.
\<close>

definition select_on_release :: "Buffer \<Rightarrow> int \<Rightarrow> Buffer" where
  "select_on_release buffer index =
     (if \<bar>buffer_cursor_position buffer - index\<bar> > 1
      then set_cursor_position index (start_selection CHARACTERS buffer)
      else buffer)"

definition is_double_click :: "real option \<Rightarrow> real \<Rightarrow> bool" where
  "is_double_click last_click now =
     (case last_click of None \<Rightarrow> False | Some t \<Rightarrow> t \<noteq> 0 \<and> now - t < 0.3)"

definition select_word :: "document_ops \<Rightarrow> Buffer \<Rightarrow> Buffer" where
  "select_word dops buffer =
     (let (start_rel, end_rel) = find_boundaries_of_current_word dops (buffer_document buffer);
          b1 = set_cursor_position (buffer_cursor_position buffer + start_rel) buffer;
          b2 = start_selection CHARACTERS b1
      in set_cursor_position (buffer_cursor_position b2 + (end_rel - start_rel)) b2)"

definition BufferControl_mouse_handler ::
  "app \<Rightarrow> document_ops \<Rightarrow> real \<Rightarrow> BufferControl \<Rightarrow> MouseEvent
     \<Rightarrow> (py_error + mouse_result) \<times> BufferControl \<times> app"
where
  "BufferControl_mouse_handler ap dops now self mouse_event =
     (let buffer = bc_buffer self;
          pos = position mouse_event
      in if current_control ap = bc_id self then
           (case last_get_processed_line self of
              None \<Rightarrow> (Inr PyNone, self, ap)
            | Some gpl \<Rightarrow>
                (case gpl (point_y pos) of
                   Inl e \<Rightarrow> (Inl e, self, ap)
                 | Inr processed_line \<Rightarrow>
                     (let xpos = pl_display_to_source processed_line (point_x pos);
                          index = translate_row_col_to_index dops (buffer_document buffer)
                                    (point_y pos) xpos
                      in if event_type mouse_event = MOUSE_DOWN then
                           (Inr PyNone,
                            self\<lparr>bc_buffer := set_cursor_position index (exit_selection buffer)\<rparr>,
                            ap)
                         else if event_type mouse_event = MOUSE_UP then
                           (let b1 = select_on_release buffer index;
                                double_click = is_double_click (last_click_timestamp self) now;
                                b2 = (if double_click then select_word dops b1 else b1)
                            in (Inr PyNone,
                                self\<lparr>bc_buffer := b2, last_click_timestamp := Some now\<rparr>,
                                ap))
                         else (Inr NotImplemented, self, ap))))
         else if focus_on_click self \<and> event_type mouse_event = MOUSE_UP then
           (Inr PyNone, self, ap\<lparr>current_control := bc_id self\<rparr>)
         else (Inr NotImplemented, self, ap))"

section \<open>Instances for running the model\<close>

text \<open>
  Modelled from the spec: an instance of the document operations for documents of a
  single line whose words are separated by spaces. Row and column of an offset are
  \<open>(0, offset)\<close>; the offset of a column is the column kept within the text; the word
  around the cursor is the run of characters other than the space; the search document
  has the buffer's text and selection and its cursor at the first occurrence of the
  search text (where the buffer's cursor is when there is none).
\<close>

fun first_occurrence :: "'a list \<Rightarrow> 'a list \<Rightarrow> nat option" where
  "first_occurrence pat [] = (if pat = [] then Some 0 else None)"
| "first_occurrence pat (c # cs) =
     (if prefix pat (c # cs) then Some 0 else map_option Suc (first_occurrence pat cs))"

definition line_document_ops :: document_ops where
  "line_document_ops =
     \<lparr> translate_row_col_to_index = (\<lambda>d row col. max 0 (min col (int (length (doc_text d))))),
       translate_index_to_position = (\<lambda>d i. (0, i)),
       find_boundaries_of_current_word =
         (\<lambda>d. (- int (length (takeWhile (\<lambda>c. c \<noteq> CHR '' '')
                              (rev (take (nat (doc_cursor_position d)) (doc_text d))))),
                int (length (takeWhile (\<lambda>c. c \<noteq> CHR '' '')
                              (drop (nat (doc_cursor_position d)) (doc_text d)))))),
       document_line_count = (\<lambda>d. 1),
       cursor_position_row = (\<lambda>d. 0),
       cursor_position_col = doc_cursor_position,
       document_for_search =
         (\<lambda>b s. (buffer_document b)
            \<lparr>doc_cursor_position :=
               (case first_occurrence (search_text s) (buffer_text b) of
                  None \<Rightarrow> buffer_cursor_position b
                | Some i \<Rightarrow> int i)\<rparr>) \<rparr>"

text \<open>
  Modelled from the spec: a lexer that gives line 0 of a one-line document as one
  unstyled fragment and every other line as the empty list, and a pipeline without
  stages (the fragments unchanged, both maps the identity).
\<close>

definition line_lexer :: lexer where
  "line_lexer =
     \<lparr> lex_document = (\<lambda>d i. Inr (if i = 0 then [('''', doc_text d)] else [])),
       invalidation_hash = 0 \<rparr>"

definition no_stages :: "processor list \<Rightarrow> processor" where
  "no_stages ps ti =
     \<lparr> tr_fragments = ti_fragments ti, tr_source_to_display = (\<lambda>i. i),
       tr_display_to_source = (\<lambda>i. i) \<rparr>"

definition example_buffer_control :: "string \<Rightarrow> int \<Rightarrow> BufferControl" where
  "example_buffer_control txt cursor =
     \<lparr> bc_id = 0,
       bc_buffer = \<lparr> buffer_text = txt, buffer_cursor_position = cursor,
                     selection_state = None, complete_state = None \<rparr>,
       input_processors = None, include_default_input_processors = True,
       default_input_processors = [], preview_search = False, focus_on_click = False,
       bc_lexer = line_lexer, bc_menu_position = None, search_buffer_control = None,
       bc_fragment_cache = SimpleCache_init 8,
       last_click_timestamp = None, last_get_processed_line = None \<rparr>"

definition heap0 :: ss_heap where
  "heap0 = \<lparr> objects = (\<lambda>r. SearchState_default), next_free = 0 \<rparr>"

text \<open>
  The example control with the search preview switched on and a search control whose
  buffer holds \<open>ba\<close> and whose search state is object 0 of the store.
\<close>

definition preview_control :: "string \<Rightarrow> int \<Rightarrow> BufferControl" where
  "preview_control txt cursor =
     (example_buffer_control txt cursor)
       \<lparr> preview_search := True,
         search_buffer_control :=
           Some \<lparr> sbc_buffer = \<lparr> buffer_text = ''ba'', buffer_cursor_position = 2,
                                selection_state = None, complete_state = None \<rparr>,
                  searcher_search_state = 0 \<rparr> \<rparr>"

text \<open>
  The example control after it has rendered once, the same with a selection from
  offset 2 in its buffer, and the control that a mouse event leaves behind.
\<close>

definition rendered_control :: "string \<Rightarrow> int \<Rightarrow> BufferControl" where
  "rendered_control txt cursor =
     fst (snd (BufferControl_create_content app0 line_document_ops no_stages
                 (example_buffer_control txt cursor) heap0 80 None False))"

definition selected_control :: "string \<Rightarrow> int \<Rightarrow> BufferControl" where
  "selected_control txt cursor =
     (rendered_control txt cursor)
       \<lparr>bc_buffer := \<lparr> buffer_text = txt, buffer_cursor_position = cursor,
                       selection_state = Some (2, CHARACTERS), complete_state = None \<rparr>\<rparr>"

definition after_mouse_event :: "real \<Rightarrow> BufferControl \<Rightarrow> MouseEvent \<Rightarrow> BufferControl" where
  "after_mouse_event now self mouse_event =
     fst (snd (BufferControl_mouse_handler app0 line_document_ops now self mouse_event))"

section \<open>Properties of UIContent\<close>

subsection \<open>Indexing a content\<close>

text \<open>
  C3 (as amended). Indexing a content at or past \<open>line_count\<close> raises
  \<open>IndexError\<close>; every index below \<open>line_count\<close>, a negative one too, is handed to
  \<open>get_line\<close> as it is.
\<close>

theorem getitem_out_of_range:
  "(line_count self \<le> lineno \<longrightarrow> getitem self lineno = Inl IndexError) \<and>
   (lineno < line_count self \<longrightarrow> getitem self lineno = get_line self lineno)"
  by (simp add: getitem_def)

theorem getitem_out_of_range_witness:
  "getitem (UIContent_init (\<lambda>i. Inr []) 2 None None True) 2 = Inl IndexError \<and>
   getitem (UIContent_init (\<lambda>i. Inr []) 2 None None True) 1 = Inr []"
  using getitem_out_of_range [of "UIContent_init (\<lambda>i. Inr []) 2 None None True" 2]
        getitem_out_of_range [of "UIContent_init (\<lambda>i. Inr []) 2 None None True" 1]
  by (simp add: UIContent_init_def)

text \<open>
  The claim as stated fails below zero: the content of a \<open>DummyControl\<close> answers
  index \<open>-1\<close>, which is outside \<open>0 \<le> i < line_count\<close>, with a line.
\<close>

theorem getitem_negative_counterexample:
  "\<not> (0 \<le> (- 1 :: int)) \<and>
   getitem (DummyControl_create_content 80 None) (- 1) = Inr [] \<and>
   getitem (DummyControl_create_content 80 None) (- 1) \<noteq> Inl IndexError"
  by (simp add: getitem_def DummyControl_create_content_def UIContent_init_def)

subsection \<open>The wrapping loop\<close>

lemma wrap_loop_fits:
  "text_width \<le> width \<Longrightarrow> wrap_loop ext glp lineno width height text_width = Some height"
  by (subst wrap_loop.simps) simp

lemma wrap_loop_abort:
  "width < text_width \<Longrightarrow> width < prefix_cwidth ext glp width lineno True \<Longrightarrow>
   wrap_loop ext glp lineno width height text_width = Some (10 ^ 8)"
  by (subst wrap_loop.simps) simp

lemma wrap_loop_step:
  "width < text_width \<Longrightarrow> prefix_cwidth ext glp width lineno True \<le> width \<Longrightarrow>
   wrap_loop ext glp lineno width height text_width =
   wrap_loop ext glp lineno width (height + 1)
     (text_width - width + prefix_cwidth ext glp width lineno True)"
  by (subst wrap_loop.simps) simp

text \<open>
  After \<open>m\<close> rounds in which the prefix fitted, the text width left is
  \<open>text_width - m * (width - p)\<close>, \<open>p\<close> being the width of the continuation prefix.
\<close>

lemma wrap_loop_rounds:
  assumes "prefix_cwidth ext glp width lineno True \<le> width"
    and "\<forall>m<n. width < text_width - int m * (width - prefix_cwidth ext glp width lineno True)"
  shows "wrap_loop ext glp lineno width height text_width =
         wrap_loop ext glp lineno width (height + int n)
           (text_width - int n * (width - prefix_cwidth ext glp width lineno True))"
  using assms(2)
proof (induction n)
  case 0
  then show ?case by simp
next
  case (Suc n)
  let ?p = "prefix_cwidth ext glp width lineno True"
  have "wrap_loop ext glp lineno width height text_width =
        wrap_loop ext glp lineno width (height + int n) (text_width - int n * (width - ?p))"
    using Suc by simp
  also have "\<dots> = wrap_loop ext glp lineno width (height + int n + 1)
                     (text_width - int n * (width - ?p) - width + ?p)"
    using Suc.prems assms(1) by (intro wrap_loop_step) auto
  also have "\<dots> = wrap_loop ext glp lineno width (height + int (Suc n))
                     (text_width - int (Suc n) * (width - ?p))"
    by (simp add: algebra_simps)
  finally show ?case .
qed

lemma wrap_loop_result:
  assumes "prefix_cwidth ext glp width lineno True \<le> width"
    and "\<forall>m<n. width < text_width - int m * (width - prefix_cwidth ext glp width lineno True)"
    and "text_width - int n * (width - prefix_cwidth ext glp width lineno True) \<le> width"
  shows "wrap_loop ext glp lineno width height text_width = Some (height + int n)"
proof -
  have "wrap_loop ext glp lineno width height text_width =
        wrap_loop ext glp lineno width (height + int n)
          (text_width - int n * (width - prefix_cwidth ext glp width lineno True))"
    using assms(1,2) by (rule wrap_loop_rounds)
  also have "\<dots> = Some (height + int n)"
    using assms(3) by (rule wrap_loop_fits)
  finally show ?thesis .
qed

text \<open>
  The loop ends whenever the continuation prefix is narrower than the width: the number
  of rounds is the least \<open>n\<close> that makes the text fit.
\<close>

lemma rounds_exist:
  fixes w p tw :: int
  assumes "p < w" "0 \<le> p"
  shows "\<exists>n. tw - int n * (w - p) \<le> w \<and> (\<forall>m<n. w < tw - int m * (w - p))"
proof -
  have ex: "tw - int (nat tw) * (w - p) \<le> w"
  proof (cases "0 \<le> tw")
    case True
    have "tw * 1 \<le> tw * (w - p)" using True assms by (intro mult_left_mono) auto
    then show ?thesis using True assms by simp
  next
    case False
    then show ?thesis using assms by simp
  qed
  define n where "n = (LEAST n. tw - int n * (w - p) \<le> w)"
  have "tw - int n * (w - p) \<le> w" unfolding n_def using ex by (rule LeastI)
  moreover have "\<forall>m<n. w < tw - int m * (w - p)"
    unfolding n_def using not_less_Least by (metis not_le)
  ultimately show ?thesis by blast
qed

lemma wrap_loop_returns:
  assumes "prefix_cwidth ext glp width lineno True \<noteq> width \<or> text_width \<le> width"
  shows "\<exists>h. wrap_loop ext glp lineno width height text_width = Some h"
proof -
  let ?p = "prefix_cwidth ext glp width lineno True"
  consider "text_width \<le> width" | "width < text_width" "width < ?p" | "width < text_width" "?p < width"
    using assms by linarith
  then show ?thesis
  proof cases
    case 1
    then show ?thesis by (simp add: wrap_loop_fits)
  next
    case 2
    then show ?thesis by (simp add: wrap_loop_abort)
  next
    case 3
    obtain n where "text_width - int n * (width - ?p) \<le> width"
      and "\<forall>m<n. width < text_width - int m * (width - ?p)"
      using rounds_exist [of ?p width text_width] 3 by auto
    then show ?thesis using wrap_loop_result [of ext glp width lineno n text_width height] 3 by simp
  qed
qed

text \<open>
  It does not end when the continuation prefix is exactly as wide as the window and the
  text does not fit: every round gives back the columns it took.
\<close>

lemma wrap_loop_stuck:
  fixes y :: int
  assumes "wrap_loop ext glp lineno width height text_width = Some y"
  shows "prefix_cwidth ext glp width lineno True = width \<longrightarrow> text_width \<le> width"
proof (rule wrap_loop.raw_induct
    [where P = "\<lambda>ext glp lineno width height text_width y.
       prefix_cwidth ext glp width lineno True = width \<longrightarrow> text_width \<le> width",
     OF _ assms])
  fix wl :: "externals \<Rightarrow> (int \<Rightarrow> int \<Rightarrow> bool \<Rightarrow> fragment list) \<Rightarrow> int \<Rightarrow> int \<Rightarrow> int \<Rightarrow> int \<Rightarrow> int option"
  fix ext glp and lineno width height text_width y :: int
  assume IH: "\<And>ext glp lineno width height text_width y.
      wl ext glp lineno width height text_width = Some y \<Longrightarrow>
      prefix_cwidth ext glp width lineno True = width \<longrightarrow> text_width \<le> width"
    and body: "(if width < text_width
      then if width < prefix_cwidth ext glp width lineno True
           then Some (10 ^ 8)
           else wl ext glp lineno width (height + 1)
                 (text_width - width + prefix_cwidth ext glp width lineno True)
      else Some height) = Some y"
  show "prefix_cwidth ext glp width lineno True = width \<longrightarrow> text_width \<le> width"
  proof
    assume eq: "prefix_cwidth ext glp width lineno True = width"
    show "text_width \<le> width"
    proof (rule ccontr)
      assume "\<not> text_width \<le> width"
      then have gt: "width < text_width" by simp
      with body eq have "wl ext glp lineno width (height + 1)
                 (text_width - width + prefix_cwidth ext glp width lineno True) = Some y"
        by simp
      from IH [OF this] eq have "text_width - width + width \<le> width" by simp
      with gt show False by simp
    qed
  qed
qed

lemma wrap_loop_diverges:
  assumes "prefix_cwidth ext glp width lineno True = width" "width < text_width"
  shows "wrap_loop ext glp lineno width height text_width = None"
proof (cases "wrap_loop ext glp lineno width height text_width")
  case None
  then show ?thesis .
next
  case (Some y)
  from wrap_loop_stuck [OF Some] assms show ?thesis by simp
qed

subsection \<open>The height of a line\<close>

lemma get_height_for_line_hit:
  "line_heights self (render_counter ap, lineno, width) = Some h \<Longrightarrow>
   get_height_for_line ap ext self lineno width glpo = Some (Inr (h, self))"
  by (simp add: get_height_for_line_def)

lemma get_height_for_line_zero:
  "line_heights self (render_counter ap, lineno, 0) = None \<Longrightarrow>
   get_height_for_line ap ext self lineno 0 glpo =
   Some (Inr (10 ^ 8, cache_height self (render_counter ap, lineno, 0) (10 ^ 8)))"
  by (simp add: get_height_for_line_def)

lemma get_height_for_line_miss:
  assumes "line_heights self (render_counter ap, lineno, width) = None" "width \<noteq> 0"
    and "get_line self lineno = Inr frs"
    and "wrap_loop ext (case glpo of None \<Rightarrow> (\<lambda>_ _ _. []) | Some f \<Rightarrow> f) lineno width 1
           (int (get_cwidth ext (fragment_list_to_text ext frs))
            + prefix_cwidth ext (case glpo of None \<Rightarrow> (\<lambda>_ _ _. []) | Some f \<Rightarrow> f) width lineno False)
         = Some h"
  shows "get_height_for_line ap ext self lineno width glpo =
         Some (Inr (h, cache_height self (render_counter ap, lineno, width) h))"
  using assms by (simp add: get_height_for_line_def Let_def)

text \<open>
  The call does not return when it misses the cache, the width is not 0, the line is
  there, the text with its first prefix does not fit, and the continuation prefix is
  exactly as wide as the window.
\<close>

lemma get_height_for_line_diverges:
  assumes "line_heights self (render_counter ap, lineno, width) = None" "width \<noteq> 0"
    and "get_line self lineno = Inr frs"
    and "prefix_cwidth ext (case glpo of None \<Rightarrow> (\<lambda>_ _ _. []) | Some f \<Rightarrow> f) width lineno True = width"
    and "width < int (get_cwidth ext (fragment_list_to_text ext frs))
            + prefix_cwidth ext (case glpo of None \<Rightarrow> (\<lambda>_ _ _. []) | Some f \<Rightarrow> f) width lineno False"
  shows "get_height_for_line ap ext self lineno width glpo = None"
proof -
  have "wrap_loop ext (case glpo of None \<Rightarrow> (\<lambda>_ _ _. []) | Some f \<Rightarrow> f) lineno width 1
          (int (get_cwidth ext (fragment_list_to_text ext frs))
           + prefix_cwidth ext (case glpo of None \<Rightarrow> (\<lambda>_ _ _. []) | Some f \<Rightarrow> f) width lineno False)
        = None"
    using assms(4,5) by (rule wrap_loop_diverges)
  then show ?thesis
    using assms(1-3) by (simp add: get_height_for_line_def Let_def)
qed

text \<open>
  What a call of \<open>get_height_for_line\<close> gives where it returns. A height that the
  cache holds for \<open>(render_counter, i, w)\<close> is
  returned as it is, whatever the prefix function. On a miss, \<open>get_height_for_line\<close>
  returns the sentinel \<open>10^8\<close> when \<open>w = 0\<close>. Otherwise, with \<open>tw\<close> the display
  width of the line's text plus the width of the first-row prefix and \<open>p\<close> the width of
  the continuation prefix: the height is 1 when \<open>tw \<le> w\<close>; it is the sentinel when
  \<open>tw > w\<close> and \<open>p > w\<close>; and when the prefix fits it is \<open>1 + n\<close>, where \<open>n\<close> is
  the number of rounds of "add one to the height, subtract \<open>w\<close>, add \<open>p\<close> back" after
  which the text width no longer exceeds \<open>w\<close>; such an \<open>n\<close> exists whenever
  \<open>p < w\<close>. The height is stored in the cache.
\<close>

theorem get_height_for_line_spec:
  fixes self :: UIContent and ap :: app and ext :: externals and lineno width h :: int
    and glpo :: "(int \<Rightarrow> int \<Rightarrow> bool \<Rightarrow> fragment list) option"
    and frs :: "fragment list" and n :: nat
  defines "glp \<equiv> (case glpo of None \<Rightarrow> (\<lambda>_ _ _. []) | Some f \<Rightarrow> f)"
  defines "key \<equiv> (render_counter ap, lineno, width)"
  defines "tw \<equiv> int (get_cwidth ext (fragment_list_to_text ext frs))
                 + prefix_cwidth ext glp width lineno False"
  defines "p \<equiv> prefix_cwidth ext glp width lineno True"
  defines "result \<equiv> get_height_for_line ap ext self lineno width glpo"
  shows
    "(line_heights self key = Some h \<longrightarrow> result = Some (Inr (h, self))) \<and>
     (line_heights self key = None \<longrightarrow>
        (width = 0 \<longrightarrow> result = Some (Inr (10 ^ 8, cache_height self key (10 ^ 8)))) \<and>
        (width \<noteq> 0 \<and> get_line self lineno = Inr frs \<longrightarrow>
           (tw \<le> width \<longrightarrow> result = Some (Inr (1, cache_height self key 1))) \<and>
           (width < tw \<and> width < p \<longrightarrow>
              result = Some (Inr (10 ^ 8, cache_height self key (10 ^ 8)))) \<and>
           (p \<le> width \<and> (\<forall>m<n. width < tw - int m * (width - p))
              \<and> tw - int n * (width - p) \<le> width \<longrightarrow>
              result = Some (Inr (1 + int n, cache_height self key (1 + int n)))))) \<and>
     (p < width \<longrightarrow>
        (\<exists>k. (\<forall>m<k. width < tw - int m * (width - p)) \<and> tw - int k * (width - p) \<le> width))"
proof -
  have hit: "line_heights self key = Some h \<Longrightarrow> result = Some (Inr (h, self))"
    unfolding key_def result_def by (rule get_height_for_line_hit)
  have zero: "line_heights self key = None \<Longrightarrow> width = 0 \<Longrightarrow>
      result = Some (Inr (10 ^ 8, cache_height self key (10 ^ 8)))"
    unfolding key_def result_def using get_height_for_line_zero by simp
  have miss: "\<And>v. line_heights self key = None \<Longrightarrow> width \<noteq> 0 \<Longrightarrow>
      get_line self lineno = Inr frs \<Longrightarrow> wrap_loop ext glp lineno width 1 tw = Some v \<Longrightarrow>
      result = Some (Inr (v, cache_height self key v))"
    unfolding key_def result_def glp_def tw_def by (rule get_height_for_line_miss)
  have fits: "tw \<le> width \<Longrightarrow> wrap_loop ext glp lineno width 1 tw = Some 1"
    by (rule wrap_loop_fits)
  have abort: "width < tw \<Longrightarrow> width < p \<Longrightarrow> wrap_loop ext glp lineno width 1 tw = Some (10 ^ 8)"
    unfolding p_def by (rule wrap_loop_abort)
  have rounds: "p \<le> width \<Longrightarrow> \<forall>m<n. width < tw - int m * (width - p) \<Longrightarrow>
      tw - int n * (width - p) \<le> width \<Longrightarrow>
      wrap_loop ext glp lineno width 1 tw = Some (1 + int n)"
    unfolding p_def by (rule wrap_loop_result)
  have "0 \<le> p" unfolding p_def by simp
  then have ends: "p < width \<Longrightarrow>
      \<exists>k. (\<forall>m<k. width < tw - int m * (width - p)) \<and> tw - int k * (width - p) \<le> width"
    using rounds_exist [of p width tw] by blast
  show ?thesis
    using hit zero miss [OF _ _ _ fits] miss [OF _ _ _ abort] miss [OF _ _ _ rounds] ends
    by blast
qed

text \<open>
  The line \<open>abcdef\<close> at width 3 with the prefix \<open>"> "\<close> on every row: 8 columns to
  place, each continuation row takes one more, so five rounds and height 6. At width 0
  the sentinel, and a cached height is returned as it is.
\<close>

theorem get_height_for_line_spec_example:
  "get_height_for_line app0 plain_externals example_content 0 3 (Some example_prefix) =
     Some (Inr (6, cache_height example_content (0, 0, 3) 6)) \<and>
   get_height_for_line app0 plain_externals example_content 0 0 (Some example_prefix) =
     Some (Inr (10 ^ 8, cache_height example_content (0, 0, 0) (10 ^ 8))) \<and>
   get_height_for_line app0 plain_externals example_content_cached 0 3 (Some example_prefix) =
     Some (Inr (2, example_content_cached))"
proof -
  have miss: "line_heights example_content (render_counter app0, 0, w) = None" for w
    by (simp add: example_content_def UIContent_init_def)
  have hit: "line_heights example_content_cached (render_counter app0, 0, 3) = Some 2"
    by (simp add: example_content_cached_def app0_def)
  have line: "get_line example_content 0 = Inr [('''', ''abcdef'')]"
    by (simp add: example_content_def UIContent_init_def)
  have widths: "int (get_cwidth plain_externals (fragment_list_to_text plain_externals [('''', ''abcdef'')]))
                + prefix_cwidth plain_externals example_prefix 3 0 False = 8"
       "prefix_cwidth plain_externals example_prefix 3 0 True = 2"
    by (simp_all add: plain_externals_def example_prefix_def)
  have rounds: "\<forall>m<5. (3::int) < 8 - int m * (3 - 2)" by auto
  have "get_height_for_line app0 plain_externals example_content 0 3 (Some example_prefix) =
     Some (Inr (1 + int 5, cache_height example_content (render_counter app0, 0, 3) (1 + int 5)))"
    using get_height_for_line_spec
      [where self = example_content and ap = app0 and ext = plain_externals and lineno = 0
         and width = 3 and glpo = "Some example_prefix" and frs = "[('''', ''abcdef'')]"
         and n = 5 and h = 2]
      miss [of 3] line widths rounds
    by simp
  moreover have "get_height_for_line app0 plain_externals example_content 0 0 (Some example_prefix) =
     Some (Inr (10 ^ 8, cache_height example_content (render_counter app0, 0, 0) (10 ^ 8)))"
    using get_height_for_line_spec
      [where self = example_content and ap = app0 and ext = plain_externals and lineno = 0
         and width = 0 and glpo = "Some example_prefix" and frs = "[]" and n = 0 and h = 2]
      miss [of 0]
    by simp
  moreover have "get_height_for_line app0 plain_externals example_content_cached 0 3 (Some example_prefix) =
     Some (Inr (2, example_content_cached))"
    using get_height_for_line_spec
      [where self = example_content_cached and ap = app0 and ext = plain_externals
         and lineno = 0 and width = 3 and glpo = "Some example_prefix" and frs = "[]"
         and n = 0 and h = 2]
      hit
    by simp
  ultimately show ?thesis by (simp add: app0_def)
qed

text \<open>
  The cache key leaves the prefix function out. On the fresh content the prefix
  \<open>"> "\<close> gives height 6 at width 3. After a call without prefix in the same render
  pass has stored height 2 under \<open>(0, 0, 3)\<close>, a call with that prefix returns 2.
\<close>

theorem get_height_for_line_cache_hit_example:
  "get_height_for_line app0 plain_externals example_content 0 3 None =
     Some (Inr (2, example_content_cached)) \<and>
   get_height_for_line app0 plain_externals example_content_cached 0 3 (Some example_prefix) =
     Some (Inr (2, example_content_cached)) \<and>
   get_height_for_line app0 plain_externals example_content 0 3 (Some example_prefix) =
     Some (Inr (6, cache_height example_content (0, 0, 3) 6))"
proof -
  have l1: "wrap_loop plain_externals (\<lambda>_ _ _. []) 0 3 1 6 = Some 2"
    by (simp add: wrap_loop_step wrap_loop_fits plain_externals_def)
  have l2: "wrap_loop plain_externals example_prefix 0 3 1 8 = Some 6"
    by (simp add: wrap_loop_step wrap_loop_fits plain_externals_def example_prefix_def)
  show ?thesis
    using l1 l2
    by (simp add: get_height_for_line_def example_content_cached_def example_content_def
        UIContent_init_def app0_def plain_externals_def example_prefix_def)
qed

text \<open>
  C1. The claim has every call return a height: the height the loop counts, or the
  sentinel when the continuation prefix cannot fit. The code tests
  \<open>prefix_width > width\<close>, so a continuation prefix that is exactly as wide as the
  window passes the test although it leaves no column for the text. For the line
  \<open>abcdef\<close> with the prefix \<open>"> "\<close> at width 2 there are 8 columns to place, every
  round takes 2 and gives 2 back, and the call never returns. At width 1, where the
  prefix is wider than the window, the same call returns the sentinel.
\<close>

theorem get_height_for_line_hangs:
  "get_height_for_line app0 plain_externals example_content 0 2 (Some example_prefix) = None \<and>
   get_height_for_line app0 plain_externals example_content 0 1 (Some example_prefix) =
     Some (Inr (10 ^ 8, cache_height example_content (0, 0, 1) (10 ^ 8)))"
proof -
  have miss: "line_heights example_content (render_counter app0, 0, w) = None" for w
    by (simp add: example_content_def UIContent_init_def)
  have line: "get_line example_content 0 = Inr [('''', ''abcdef'')]"
    by (simp add: example_content_def UIContent_init_def)
  have "get_height_for_line app0 plain_externals example_content 0 2 (Some example_prefix) = None"
    by (rule get_height_for_line_diverges [OF miss _ line])
       (simp_all add: plain_externals_def example_prefix_def)
  moreover have "wrap_loop plain_externals example_prefix 0 1 1 8 = Some (10 ^ 8)"
    by (rule wrap_loop_abort) (simp_all add: plain_externals_def example_prefix_def)
  then have "get_height_for_line app0 plain_externals example_content 0 1 (Some example_prefix) =
     Some (Inr (10 ^ 8, cache_height example_content (0, 0, 1) (10 ^ 8)))"
    by (simp add: get_height_for_line_def example_content_def UIContent_init_def app0_def
        plain_externals_def example_prefix_def)
  ultimately show ?thesis by simp
qed

subsection \<open>No prefix: ceiling division, at least one row\<close>

lemma ceil_step:
  fixes tw k :: int
  assumes "0 < k"
  shows "\<lceil>real_of_int (tw - k) / real_of_int k\<rceil> = \<lceil>real_of_int tw / real_of_int k\<rceil> - 1"
proof -
  have "real_of_int (tw - k) / real_of_int k = real_of_int tw / real_of_int k - 1"
    using assms by (simp add: diff_divide_distrib)
  then show ?thesis by simp
qed

lemma ceil_small:
  fixes tw k :: int
  assumes "0 < k" "tw \<le> k"
  shows "\<lceil>real_of_int tw / real_of_int k\<rceil> \<le> 1"
proof -
  have "real_of_int tw / real_of_int k \<le> 1" using assms by simp
  then show ?thesis by (simp add: ceiling_le_iff)
qed

lemma ceil_big:
  fixes tw k :: int
  assumes "0 < k" "k < tw"
  shows "2 \<le> \<lceil>real_of_int tw / real_of_int k\<rceil>"
proof -
  have "1 < real_of_int tw / real_of_int k" using assms by simp
  then have "1 < \<lceil>real_of_int tw / real_of_int k\<rceil>" by (simp add: less_ceiling_iff)
  then show ?thesis by simp
qed

lemma wrap_loop_no_prefix:
  assumes k: "0 < k" and p0: "prefix_cwidth ext glp k lineno True = 0"
  shows "wrap_loop ext glp lineno k height tw =
         Some (height + max 0 (\<lceil>real_of_int tw / real_of_int k\<rceil> - 1))"
proof (induction "nat tw" arbitrary: tw height rule: less_induct)
  case less
  show ?case
  proof (cases "tw \<le> k")
    case True
    then show ?thesis using ceil_small [OF k True] by (simp add: wrap_loop_fits)
  next
    case False
    then have gt: "k < tw" by simp
    have lt: "nat (tw - k) < nat tw" using gt k by simp
    have "wrap_loop ext glp lineno k height tw = wrap_loop ext glp lineno k (height + 1) (tw - k)"
      using wrap_loop_step [of k tw ext glp lineno height] gt k p0 by simp
    also have "\<dots> = Some (height + 1 + max 0 (\<lceil>real_of_int (tw - k) / real_of_int k\<rceil> - 1))"
      by (rule less [OF lt])
    also have "\<dots> = Some (height + max 0 (\<lceil>real_of_int tw / real_of_int k\<rceil> - 1))"
      using ceil_step [OF k, of tw] ceil_big [OF k gt] by simp
    finally show ?thesis .
  qed
qed

text \<open>
  C2 (as amended). For a line whose plain text has display width \<open>w\<close>, no line prefix
  given (the empty prefix has width 0) and a wrap width \<open>k > 0\<close>, a call of
  \<open>get_height_for_line\<close> that misses the cache returns \<open>max 1 (ceil (w / k))\<close>: an
  empty line still takes one row.
\<close>

theorem get_height_for_line_no_prefix:
  assumes miss: "line_heights self (render_counter ap, lineno, k) = None"
    and line: "get_line self lineno = Inr frs"
    and k: "0 < k"
    and empty: "get_cwidth ext (fragment_list_to_text ext (to_formatted_text ext [])) = 0"
    and w: "w = get_cwidth ext (fragment_list_to_text ext frs)"
  shows "get_height_for_line ap ext self lineno k None =
         Some (Inr (max 1 \<lceil>real w / real_of_int k\<rceil>,
                    cache_height self (render_counter ap, lineno, k) (max 1 \<lceil>real w / real_of_int k\<rceil>)))"
proof -
  have loop: "wrap_loop ext (\<lambda>_ _ _. []) lineno k 1 (int w) =
              Some (1 + max 0 (\<lceil>real_of_int (int w) / real_of_int k\<rceil> - 1))"
    using wrap_loop_no_prefix [OF k, of ext "\<lambda>_ _ _. []" lineno 1 "int w"] empty by simp
  have "1 + max 0 (\<lceil>real_of_int (int w) / real_of_int k\<rceil> - 1) = max 1 \<lceil>real w / real_of_int k\<rceil>"
    by simp
  with loop have "wrap_loop ext (\<lambda>_ _ _. []) lineno k 1 (int w) = Some (max 1 \<lceil>real w / real_of_int k\<rceil>)"
    by simp
  then show ?thesis
    using get_height_for_line_miss
      [where self = self and ap = ap and lineno = lineno and width = k and frs = frs
         and ext = ext and glpo = None] miss line k empty w
    by simp
qed

text \<open>Seven columns at width 3 take three rows.\<close>

theorem get_height_for_line_no_prefix_witness:
  "get_height_for_line app0 plain_externals
     (UIContent_init (\<lambda>i. Inr [('''', ''abcdefg'')]) 1 None None True) 0 3 None =
   Some (Inr (3, cache_height (UIContent_init (\<lambda>i. Inr [('''', ''abcdefg'')]) 1 None None True)
                   (0, 0, 3) 3))"
proof -
  have c: "\<lceil>real 7 / real_of_int 3\<rceil> = 3" by (simp add: ceiling_eq_iff)
  show ?thesis
    using get_height_for_line_no_prefix
      [where self = "UIContent_init (\<lambda>i. Inr [('''', ''abcdefg'')]) 1 None None True"
         and ap = app0 and lineno = 0 and k = 3 and frs = "[('''', ''abcdefg'')]"
         and ext = plain_externals and w = 7] c
    by (simp add: UIContent_init_def plain_externals_def app0_def)
qed

text \<open>
  The claim as stated fails on an empty line: a line of the \<open>DummyControl\<close> has
  display width 0, \<open>ceil (0 / 1) = 0\<close>, and its height at width 1 is 1.
\<close>

theorem get_height_for_line_empty_line_counterexample:
  "get_cwidth plain_externals (fragment_list_to_text plain_externals []) = 0 \<and>
   \<lceil>real 0 / real_of_int 1\<rceil> = 0 \<and>
   get_height_for_line app0 plain_externals (DummyControl_create_content 1 None) 0 1 None =
     Some (Inr (1, cache_height (DummyControl_create_content 1 None) (0, 0, 1) 1))"
  by (simp add: get_height_for_line_def DummyControl_create_content_def UIContent_init_def
      plain_externals_def app0_def wrap_loop_fits)

section \<open>Properties of FormattedTextControl\<close>

subsection \<open>The scan for a marker\<close>

lemma marked_pair: "marked m (s, t) = sublist m s"
  by (simp add: marked_def)

lemma scan_line_None: "scan_line m y x line = None \<longleftrightarrow> (\<forall>f \<in> set line. \<not> marked m f)"
proof (induction line arbitrary: x)
  case Nil
  then show ?case by simp
next
  case (Cons f line)
  obtain s t where f: "f = (s, t)" by (cases f)
  show ?case using Cons.IH [of "x + int (length t)"] by (simp add: f marked_pair)
qed

lemma scan_line_Some_marked: "scan_line m y x line = Some p \<Longrightarrow> \<exists>f \<in> set line. marked m f"
  using scan_line_None [of m y x line] by auto

lemma scan_lines_None: "scan_lines m y ls = None \<longleftrightarrow> unmarked m ls"
proof (induction ls arbitrary: y)
  case Nil
  then show ?case by (simp add: unmarked_def)
next
  case (Cons l ls)
  show ?case
  proof (cases "scan_line m y 0 l")
    case None
    then have "\<forall>f \<in> set l. \<not> marked m f" by (simp add: scan_line_None)
    then show ?thesis using None Cons.IH [of "y + 1"] by (simp add: unmarked_def)
  next
    case (Some q)
    from scan_line_Some_marked [OF Some] show ?thesis using Some by (auto simp: unmarked_def)
  qed
qed

lemma scan_line_Some:
  "scan_line m y x line = Some p \<longleftrightarrow>
     (\<exists>j < length line. marked m (line ! j) \<and> (\<forall>f \<in> set (take j line). \<not> marked m f) \<and>
        p = Point (x + (\<Sum>f \<leftarrow> take j line. int (length (snd f)))) y)"
proof (induction line arbitrary: x)
  case Nil
  then show ?case by simp
next
  case (Cons f line)
  obtain s t where f: "f = (s, t)" by (cases f)
  show ?case
  proof (cases "sublist m s")
    case True
    have "(\<exists>j < length (f # line). marked m ((f # line) ! j) \<and>
            (\<forall>g \<in> set (take j (f # line)). \<not> marked m g) \<and>
            p = Point (x + (\<Sum>g \<leftarrow> take j (f # line). int (length (snd g)))) y)
          \<longleftrightarrow> p = Point x y"
    proof
      assume "\<exists>j < length (f # line). marked m ((f # line) ! j) \<and>
            (\<forall>g \<in> set (take j (f # line)). \<not> marked m g) \<and>
            p = Point (x + (\<Sum>g \<leftarrow> take j (f # line). int (length (snd g)))) y"
      then obtain j where j: "(\<forall>g \<in> set (take j (f # line)). \<not> marked m g)"
        "p = Point (x + (\<Sum>g \<leftarrow> take j (f # line). int (length (snd g)))) y" by blast
      have "j = 0" using j(1) True f by (cases j) (auto simp: marked_def)
      with j(2) show "p = Point x y" by simp
    next
      assume "p = Point x y"
      then show "\<exists>j < length (f # line). marked m ((f # line) ! j) \<and>
            (\<forall>g \<in> set (take j (f # line)). \<not> marked m g) \<and>
            p = Point (x + (\<Sum>g \<leftarrow> take j (f # line). int (length (snd g)))) y"
        using True f by (intro exI [of _ 0]) (simp add: marked_def)
    qed
    then show ?thesis using True f by auto
  next
    case False
    have "(\<exists>j < length (f # line). marked m ((f # line) ! j) \<and>
            (\<forall>g \<in> set (take j (f # line)). \<not> marked m g) \<and>
            p = Point (x + (\<Sum>g \<leftarrow> take j (f # line). int (length (snd g)))) y)
          \<longleftrightarrow>
          (\<exists>j < length line. marked m (line ! j) \<and> (\<forall>g \<in> set (take j line). \<not> marked m g) \<and>
            p = Point (x + int (length t) + (\<Sum>g \<leftarrow> take j line. int (length (snd g)))) y)"
      (is "?L \<longleftrightarrow> ?R")
    proof
      assume ?L
      then obtain j where j: "j < length (f # line)" "marked m ((f # line) ! j)"
        "\<forall>g \<in> set (take j (f # line)). \<not> marked m g"
        "p = Point (x + (\<Sum>g \<leftarrow> take j (f # line). int (length (snd g)))) y" by blast
      from j(2) False f obtain i where i: "j = Suc i" by (cases j) (auto simp: marked_def)
      show ?R using j f unfolding i by (intro exI [of _ i]) (simp add: add.assoc)
    next
      assume ?R
      then obtain i where i: "i < length line" "marked m (line ! i)"
        "\<forall>g \<in> set (take i line). \<not> marked m g"
        "p = Point (x + int (length t) + (\<Sum>g \<leftarrow> take i line. int (length (snd g)))) y" by blast
      show ?L using i f False by (intro exI [of _ "Suc i"]) (simp add: marked_def add.assoc)
    qed
    then show ?thesis using False f Cons.IH [of "x + int (length t)"] by simp
  qed
qed

lemma scan_lines_row: "scan_lines m y0 ls = Some p \<Longrightarrow> y0 \<le> point_y p"
proof (induction ls arbitrary: y0)
  case Nil
  then show ?case by simp
next
  case (Cons l ls)
  show ?case
  proof (cases "scan_line m y0 0 l")
    case None
    with Cons.prems have "scan_lines m (y0 + 1) ls = Some p" by simp
    from Cons.IH [OF this] show ?thesis by simp
  next
    case (Some q)
    with Cons.prems have "q = p" by simp
    with Some show ?thesis by (auto simp: scan_line_Some)
  qed
qed

lemma first_marked_Cons_here:
  assumes ex: "\<exists>f \<in> set l. marked m f"
  shows "first_marked m (l # ls) x y \<longleftrightarrow>
     y = 0 \<and> (\<exists>j < length l. marked m (l ! j) \<and> (\<forall>f \<in> set (take j l). \<not> marked m f) \<and>
        x = (\<Sum>f \<leftarrow> take j l. int (length (snd f))))"
proof (cases "y = 0")
  case True
  then show ?thesis by (simp add: first_marked_def)
next
  case False
  have "\<not> first_marked m (l # ls) x y"
  proof
    assume fm: "first_marked m (l # ls) x y"
    then have "0 < nat y" using False by (simp add: first_marked_def)
    then obtain k where "nat y = Suc k" by (cases "nat y") auto
    then have "l \<in> set (take (nat y) (l # ls))" by simp
    moreover have "\<forall>l' \<in> set (take (nat y) (l # ls)). \<forall>f \<in> set l'. \<not> marked m f"
      using fm unfolding first_marked_def by blast
    ultimately show False using ex by blast
  qed
  then show ?thesis using False by simp
qed

lemma first_marked_Cons_later:
  assumes no: "\<forall>f \<in> set l. \<not> marked m f"
  shows "first_marked m (l # ls) x y \<longleftrightarrow> first_marked m ls x (y - 1)"
proof (cases "0 < y")
  case True
  then obtain k where k: "nat y = Suc k" "nat (y - 1) = k" by (cases "nat y") auto
  have "0 \<le> y" "0 \<le> y - 1" using True by simp_all
  then show ?thesis using no by (simp add: first_marked_def k)
next
  case False
  have "\<not> first_marked m ls x (y - 1)" using False by (simp add: first_marked_def)
  moreover have "\<not> first_marked m (l # ls) x y"
  proof
    assume fm: "first_marked m (l # ls) x y"
    then have "y = 0" using False by (simp add: first_marked_def)
    with fm obtain j where "j < length l" "marked m (l ! j)" by (auto simp: first_marked_def)
    with no show False by auto
  qed
  ultimately show ?thesis by simp
qed

lemma scan_lines_Some:
  "scan_lines m y0 ls = Some (Point x y) \<longleftrightarrow> first_marked m ls x (y - y0)"
proof (induction ls arbitrary: y0)
  case Nil
  then show ?case by (simp add: first_marked_def)
next
  case (Cons l ls)
  show ?case
  proof (cases "scan_line m y0 0 l")
    case None
    then have no: "\<forall>f \<in> set l. \<not> marked m f" by (simp add: scan_line_None)
    have "scan_lines m y0 (l # ls) = Some (Point x y) \<longleftrightarrow> scan_lines m (y0 + 1) ls = Some (Point x y)"
      using None by simp
    also have "\<dots> \<longleftrightarrow> first_marked m ls x (y - (y0 + 1))" by (rule Cons.IH)
    also have "\<dots> \<longleftrightarrow> first_marked m (l # ls) x (y - y0)"
      using first_marked_Cons_later [OF no, of ls x "y - y0"] by (simp add: algebra_simps)
    finally show ?thesis .
  next
    case (Some q)
    then have ex: "\<exists>f \<in> set l. marked m f"
      using scan_line_None [of m y0 0 l] by auto
    have "scan_lines m y0 (l # ls) = Some (Point x y) \<longleftrightarrow> scan_line m y0 0 l = Some (Point x y)"
      using Some by simp
    also have "\<dots> \<longleftrightarrow> first_marked m (l # ls) x (y - y0)"
      unfolding first_marked_Cons_here [OF ex] scan_line_Some by auto
    finally show ?thesis .
  qed
qed

subsection \<open>The bounded cache\<close>

lemma SimpleCache_get_value:
  "fst (SimpleCache_get c k v) = (case map_of (cache_data c) k of Some w \<Rightarrow> w | None \<Rightarrow> v)"
  by (simp add: SimpleCache_get_def Let_def split: option.split)

lemma SimpleCache_get_entries:
  "set (cache_data (snd (SimpleCache_get c k v))) \<subseteq> insert (k, v) (set (cache_data c))"
proof (cases "map_of (cache_data c) k")
  case None
  have "set (tl (cache_data c @ [(k, v)])) \<subseteq> set (cache_data c @ [(k, v)])"
    by (cases "cache_data c @ [(k, v)]") auto
  then show ?thesis using None by (auto simp: SimpleCache_get_def Let_def)
next
  case (Some w)
  then show ?thesis by (auto simp: SimpleCache_get_def)
qed

lemma SimpleCache_get_hit_or_new:
  "(k, fst (SimpleCache_get c k v)) \<in> set (cache_data c) \<or> fst (SimpleCache_get c k v) = v"
  by (auto simp: SimpleCache_get_value dest: map_of_SomeD split: option.split)

subsection \<open>Cursor and menu position of a content\<close>

lemma content_cache_ok_init:
  "content_cache_ok split_lines (ftc_content_cache (FormattedTextControl_init txt style sc gcp))"
  by (simp add: content_cache_ok_def FormattedTextControl_init_def SimpleCache_init_def)

lemma get_formatted_text_cached_fields:
  "ftc_get_cursor_position (snd (get_formatted_text_cached ap tft self)) = ftc_get_cursor_position self"
  "ftc_show_cursor (snd (get_formatted_text_cached ap tft self)) = ftc_show_cursor self"
  "ftc_content_cache (snd (get_formatted_text_cached ap tft self)) = ftc_content_cache self"
  by (simp_all add: get_formatted_text_cached_def split_beta)

lemma create_content_unfold:
  fixes self :: "'ft FormattedTextControl" and ap :: app
    and tft :: "'ft \<Rightarrow> string \<Rightarrow> mfragment list"
    and split_lines :: "mfragment list \<Rightarrow> mfragment list list"
    and width :: int and height :: "int option"
  defines "frs \<equiv> fst (get_formatted_text_cached ap tft self)"
  defines "ls \<equiv> strip_mouse_handlers (split_lines frs)"
  defines "cp \<equiv> (case ftc_get_cursor_position self of
                    Some r \<Rightarrow> r | None \<Rightarrow> scan_lines ''[SetCursorPosition]'' 0 ls)"
  defines "fresh \<equiv> UIContent_init (\<lambda>i. py_index ls i) (int (length ls)) cp
                     (scan_lines ''[SetMenuPosition]'' 0 ls) (ftc_show_cursor self)"
  shows "fst (FormattedTextControl_create_content ap tft split_lines self width height) =
           fst (SimpleCache_get (ftc_content_cache self) (frs, width, cp) fresh)"
    and "ftc_content_cache (snd (FormattedTextControl_create_content ap tft split_lines self width height)) =
           snd (SimpleCache_get (ftc_content_cache self) (frs, width, cp) fresh)"
    and "ftc_fragments (snd (FormattedTextControl_create_content ap tft split_lines self width height)) =
           Some frs"
  unfolding frs_def ls_def cp_def fresh_def
  by (simp_all add: FormattedTextControl_create_content_def get_formatted_text_cached_fields
      Let_def split_beta)

lemma create_content_cursor_menu:
  fixes self :: "'ft FormattedTextControl" and ap :: app
    and tft :: "'ft \<Rightarrow> string \<Rightarrow> mfragment list"
    and split_lines :: "mfragment list \<Rightarrow> mfragment list list"
    and width :: int and height :: "int option"
  assumes ok: "content_cache_ok split_lines (ftc_content_cache self)"
  defines "ls \<equiv> strip_mouse_handlers (split_lines (fst (get_formatted_text_cached ap tft self)))"
  defines "cp \<equiv> (case ftc_get_cursor_position self of
                    Some r \<Rightarrow> r | None \<Rightarrow> scan_lines ''[SetCursorPosition]'' 0 ls)"
  defines "content \<equiv> fst (FormattedTextControl_create_content ap tft split_lines self width height)"
  shows "cursor_position content = (case cp of None \<Rightarrow> Point 0 0 | Some p \<Rightarrow> p)"
    and "menu_position content = scan_lines ''[SetMenuPosition]'' 0 ls"
proof -
  let ?frs = "fst (get_formatted_text_cached ap tft self)"
  let ?fresh = "UIContent_init (\<lambda>i. py_index ls i) (int (length ls)) cp
                  (scan_lines ''[SetMenuPosition]'' 0 ls) (ftc_show_cursor self)"
  have c: "content = fst (SimpleCache_get (ftc_content_cache self) (?frs, width, cp) ?fresh)"
    unfolding content_def ls_def cp_def by (rule create_content_unfold(1))
  have "cursor_position content = (case cp of None \<Rightarrow> Point 0 0 | Some p \<Rightarrow> p) \<and>
        menu_position content = scan_lines ''[SetMenuPosition]'' 0 ls"
    using SimpleCache_get_hit_or_new [of "(?frs, width, cp)" "ftc_content_cache self" ?fresh]
  proof
    assume "((?frs, width, cp), fst (SimpleCache_get (ftc_content_cache self) (?frs, width, cp) ?fresh))
              \<in> set (cache_data (ftc_content_cache self))"
    with ok c show ?thesis unfolding content_cache_ok_def ls_def by fastforce
  next
    assume "fst (SimpleCache_get (ftc_content_cache self) (?frs, width, cp) ?fresh) = ?fresh"
    with c show ?thesis by (simp add: UIContent_init_def)
  qed
  then show "cursor_position content = (case cp of None \<Rightarrow> Point 0 0 | Some p \<Rightarrow> p)"
    and "menu_position content = scan_lines ''[SetMenuPosition]'' 0 ls" by simp_all
qed

lemma create_content_keeps_cache_ok:
  fixes self :: "'ft FormattedTextControl"
  assumes ok: "content_cache_ok split_lines (ftc_content_cache self)"
  shows "content_cache_ok split_lines
           (ftc_content_cache (snd (FormattedTextControl_create_content ap tft split_lines self width height)))"
proof -
  let ?frs = "fst (get_formatted_text_cached ap tft self)"
  let ?ls = "strip_mouse_handlers (split_lines ?frs)"
  let ?cp = "(case ftc_get_cursor_position self of
                Some r \<Rightarrow> r | None \<Rightarrow> scan_lines ''[SetCursorPosition]'' 0 ?ls)"
  let ?fresh = "UIContent_init (\<lambda>i. py_index ?ls i) (int (length ?ls)) ?cp
                  (scan_lines ''[SetMenuPosition]'' 0 ?ls) (ftc_show_cursor self)"
  have eq: "ftc_content_cache (snd (FormattedTextControl_create_content ap tft split_lines self width height)) =
           snd (SimpleCache_get (ftc_content_cache self) (?frs, width, ?cp) ?fresh)"
    by (rule create_content_unfold(2))
  have sub: "set (cache_data (snd (SimpleCache_get (ftc_content_cache self) (?frs, width, ?cp) ?fresh)))
               \<subseteq> insert ((?frs, width, ?cp), ?fresh) (set (cache_data (ftc_content_cache self)))"
    by (rule SimpleCache_get_entries)
  show ?thesis
    unfolding eq content_cache_ok_def
  proof (intro ballI)
    fix e assume "e \<in> set (cache_data (snd (SimpleCache_get (ftc_content_cache self) (?frs, width, ?cp) ?fresh)))"
    with sub have "e = ((?frs, width, ?cp), ?fresh) \<or> e \<in> set (cache_data (ftc_content_cache self))"
      by auto
    then show "case e of (key, v) \<Rightarrow>
        cursor_position v = (case snd (snd key) of None \<Rightarrow> Point 0 0 | Some p \<Rightarrow> p) \<and>
        menu_position v = scan_lines ''[SetMenuPosition]'' 0 (strip_mouse_handlers (split_lines (fst key)))"
    proof
      assume "e = ((?frs, width, ?cp), ?fresh)"
      then show ?thesis by (simp add: UIContent_init_def)
    next
      assume "e \<in> set (cache_data (ftc_content_cache self))"
      with ok show ?thesis unfolding content_cache_ok_def by blast
    qed
  qed
qed

text \<open>
  C8. \<open>FormattedTextControl.create_content\<close> takes the cursor position from the
  caller's \<open>get_cursor_position\<close> when one was given (the origin when that returns
  \<open>None\<close>); otherwise it is the position \<open>(column, row)\<close> at which the scan of the
  fragment lines first meets a style that contains \<open>[SetCursorPosition]\<close>, and the
  origin when no style does. The menu position is the position at which the scan first
  meets \<open>[SetMenuPosition]\<close>, and \<open>None\<close> when no style contains it. This holds for
  a content that comes out of the content cache too, and the cache keeps its invariant.
\<close>

theorem create_content_marker_positions:
  fixes self :: "'ft FormattedTextControl" and ap :: app
    and tft :: "'ft \<Rightarrow> string \<Rightarrow> mfragment list"
    and split_lines :: "mfragment list \<Rightarrow> mfragment list list"
    and width :: int and height :: "int option"
  assumes ok: "content_cache_ok split_lines (ftc_content_cache self)"
  defines "ls \<equiv> strip_mouse_handlers (split_lines (fst (get_formatted_text_cached ap tft self)))"
  defines "content \<equiv> fst (FormattedTextControl_create_content ap tft split_lines self width height)"
  shows
    "(ftc_get_cursor_position self = Some (Some p) \<longrightarrow> cursor_position content = p) \<and>
     (ftc_get_cursor_position self = Some None \<longrightarrow> cursor_position content = Point 0 0) \<and>
     (ftc_get_cursor_position self = None \<and> first_marked ''[SetCursorPosition]'' ls x y \<longrightarrow>
        cursor_position content = Point x y) \<and>
     (ftc_get_cursor_position self = None \<and> unmarked ''[SetCursorPosition]'' ls \<longrightarrow>
        cursor_position content = Point 0 0) \<and>
     (first_marked ''[SetMenuPosition]'' ls mx my \<longrightarrow> menu_position content = Some (Point mx my)) \<and>
     (unmarked ''[SetMenuPosition]'' ls \<longrightarrow> menu_position content = None) \<and>
     content_cache_ok split_lines
       (ftc_content_cache (snd (FormattedTextControl_create_content ap tft split_lines self width height)))"
proof -
  let ?cp = "(case ftc_get_cursor_position self of
                Some r \<Rightarrow> r | None \<Rightarrow> scan_lines ''[SetCursorPosition]'' 0 ls)"
  have cur: "cursor_position content = (case ?cp of None \<Rightarrow> Point 0 0 | Some q \<Rightarrow> q)"
    unfolding content_def ls_def by (rule create_content_cursor_menu(1) [OF ok])
  have menu: "menu_position content = scan_lines ''[SetMenuPosition]'' 0 ls"
    unfolding content_def ls_def by (rule create_content_cursor_menu(2) [OF ok])
  have first: "first_marked m ls a b \<Longrightarrow> scan_lines m 0 ls = Some (Point a b)" for m a b
    using scan_lines_Some [of m 0 ls a b] by simp
  have none: "unmarked m ls \<Longrightarrow> scan_lines m 0 ls = None" for m
    by (simp add: scan_lines_None)
  have "ftc_get_cursor_position self = Some (Some p) \<longrightarrow> cursor_position content = p"
    using cur by simp
  moreover have "ftc_get_cursor_position self = Some None \<longrightarrow> cursor_position content = Point 0 0"
    using cur by simp
  moreover have "ftc_get_cursor_position self = None \<and> first_marked ''[SetCursorPosition]'' ls x y \<longrightarrow>
        cursor_position content = Point x y"
    using cur first [of "''[SetCursorPosition]''" x y] by auto
  moreover have "ftc_get_cursor_position self = None \<and> unmarked ''[SetCursorPosition]'' ls \<longrightarrow>
        cursor_position content = Point 0 0"
    using cur none [of "''[SetCursorPosition]''"] by auto
  moreover have "first_marked ''[SetMenuPosition]'' ls mx my \<longrightarrow> menu_position content = Some (Point mx my)"
    using menu first [of "''[SetMenuPosition]''" mx my] by auto
  moreover have "unmarked ''[SetMenuPosition]'' ls \<longrightarrow> menu_position content = None"
    using menu none [of "''[SetMenuPosition]''"] by auto
  moreover have "content_cache_ok split_lines
       (ftc_content_cache (snd (FormattedTextControl_create_content ap tft split_lines self width height)))"
    by (rule create_content_keeps_cache_ok [OF ok])
  ultimately show ?thesis by blast
qed

lemma example_control_lines:
  "strip_mouse_handlers (one_line (fst (get_formatted_text_cached app0 styled example_control))) =
     [[('''', ''ab''), (''[SetCursorPosition]'', ''''), ('''', ''cd''), (''[SetMenuPosition]'', ''e'')]]"
  by (simp add: get_formatted_text_cached_def SimpleCache_get_def example_control_def
      FormattedTextControl_init_def SimpleCache_init_def styled_def one_line_def
      strip_mouse_handlers_def Let_def)

lemma example_first_cursor:
  "first_marked ''[SetCursorPosition]''
     [[('''', ''ab''), (''[SetCursorPosition]'', ''''), ('''', ''cd''), (''[SetMenuPosition]'', ''e'')]] 2 0"
proof -
  have "scan_lines ''[SetCursorPosition]'' 0
     [[('''', ''ab''), (''[SetCursorPosition]'', ''''), ('''', ''cd''), (''[SetMenuPosition]'', ''e'')]]
     = Some (Point 2 0)"
    by (simp add: sublist_code prefix_code)
  from scan_lines_Some [THEN iffD1, OF this] show ?thesis by simp
qed

lemma example_first_menu:
  "first_marked ''[SetMenuPosition]''
     [[('''', ''ab''), (''[SetCursorPosition]'', ''''), ('''', ''cd''), (''[SetMenuPosition]'', ''e'')]] 4 0"
proof -
  have "scan_lines ''[SetMenuPosition]'' 0
     [[('''', ''ab''), (''[SetCursorPosition]'', ''''), ('''', ''cd''), (''[SetMenuPosition]'', ''e'')]]
     = Some (Point 4 0)"
    by (simp add: sublist_code prefix_code)
  from scan_lines_Some [THEN iffD1, OF this] show ?thesis by simp
qed

text \<open>
  The text \<open>ab\<close>, a cursor marker, \<open>cd\<close> and a fragment \<open>e\<close> that carries the menu
  marker, on a fresh control: the cursor is at column 2 and the menu at column 4 of row 0.
\<close>

theorem create_content_marker_positions_witness:
  "cursor_position (fst (FormattedTextControl_create_content app0 styled one_line example_control 80 None))
     = Point 2 0 \<and>
   menu_position (fst (FormattedTextControl_create_content app0 styled one_line example_control 80 None))
     = Some (Point 4 0)"
proof -
  have ok: "content_cache_ok one_line (ftc_content_cache example_control)"
    unfolding example_control_def by (rule content_cache_ok_init)
  have gcp: "ftc_get_cursor_position example_control = None"
    by (simp add: example_control_def FormattedTextControl_init_def)
  show ?thesis
    using create_content_marker_positions
      [OF ok, where ap = app0 and tft = styled and width = 80 and height = None
         and x = 2 and y = 0 and mx = 4 and my = 0]
      gcp example_first_cursor example_first_menu
    unfolding example_control_lines
    by simp
qed

subsection \<open>Mouse events on a FormattedTextControl\<close>

lemma py_index_past: "int (length xs) \<le> i \<Longrightarrow> py_index xs i = Inl IndexError"
  by (simp add: py_index_def)

lemma FormattedTextControl_mouse_handler_not_rendered:
  "ftc_fragments self = None \<Longrightarrow>
   FormattedTextControl_mouse_handler call split_lines self mouse_event = Inr NotImplemented"
  by (simp add: FormattedTextControl_mouse_handler_def)

lemma FormattedTextControl_mouse_handler_past_lines:
  "ftc_fragments self = Some frs \<Longrightarrow>
   int (length (split_lines frs)) \<le> point_y (position mouse_event) \<Longrightarrow>
   FormattedTextControl_mouse_handler call split_lines self mouse_event = Inr NotImplemented"
  by (simp add: FormattedTextControl_mouse_handler_def py_index_past)

section \<open>Properties of BufferControl\<close>

subsection \<open>The search state of a control without search control\<close>

text \<open>
  C10. For a \<open>BufferControl\<close> whose \<open>search_buffer_control\<close> is \<open>None\<close>, an access
  to \<open>search_state\<close> returns a reference that was not in use, to an object with the
  default state (empty text, forward, case-sensitive), and leaves every other object as
  it was. In whatever way the store is changed afterwards, the object obtained
  included, a later access returns another new reference to a default state again.
\<close>

theorem search_state_fresh_default:
  assumes "search_buffer_control self = None"
  shows "fst (search_state self h) = next_free h \<and>
         objects (snd (search_state self h)) (fst (search_state self h)) = SearchState_default \<and>
         search_text SearchState_default = [] \<and>
         direction SearchState_default = FORWARD \<and>
         ignore_case SearchState_default = False \<and>
         next_free (snd (search_state self h)) = Suc (next_free h) \<and>
         (\<forall>r. r \<noteq> next_free h \<longrightarrow> objects (snd (search_state self h)) r = objects h r) \<and>
         (\<forall>h2. next_free (snd (search_state self h)) \<le> next_free h2 \<longrightarrow>
            fst (search_state self h2) \<noteq> fst (search_state self h) \<and>
            objects (snd (search_state self h2)) (fst (search_state self h2)) = SearchState_default)"
  using assms
  by (simp add: search_state_def new_SearchState_def SearchState_default_def SearchState_init_def)

text \<open>
  The first access gives object 0; it is then set to a backward, case-insensitive search
  for \<open>x\<close>; the second access gives object 1, in the default state.
\<close>

theorem search_state_fresh_default_witness:
  "fst (search_state (example_buffer_control ''foo'' 0) heap0) = 0 \<and>
   fst (search_state (example_buffer_control ''foo'' 0)
          ((snd (search_state (example_buffer_control ''foo'' 0) heap0))
             \<lparr>objects := (objects (snd (search_state (example_buffer_control ''foo'' 0) heap0)))
                           (0 := SearchState_init ''x'' BACKWARD True)\<rparr>)) = 1 \<and>
   objects (snd (search_state (example_buffer_control ''foo'' 0)
          ((snd (search_state (example_buffer_control ''foo'' 0) heap0))
             \<lparr>objects := (objects (snd (search_state (example_buffer_control ''foo'' 0) heap0)))
                           (0 := SearchState_init ''x'' BACKWARD True)\<rparr>))) 1 = SearchState_default"
proof -
  have none: "search_buffer_control (example_buffer_control ''foo'' 0) = None"
    by (simp add: example_buffer_control_def)
  let ?h1 = "snd (search_state (example_buffer_control ''foo'' 0) heap0)"
  let ?h2 = "?h1\<lparr>objects := (objects ?h1)(0 := SearchState_init ''x'' BACKWARD True)\<rparr>"
  note t1 = search_state_fresh_default [OF none, of heap0]
  note t2 = search_state_fresh_default [OF none, of ?h2]
  have n0: "next_free heap0 = 0" by (simp add: heap0_def)
  have a: "fst (search_state (example_buffer_control ''foo'' 0) heap0) = 0"
    using t1 [THEN conjunct1] n0 by simp
  have "next_free ?h1 = Suc (next_free heap0)"
    using t1 [THEN conjunct2, THEN conjunct2, THEN conjunct2, THEN conjunct2, THEN conjunct2,
              THEN conjunct1] .
  then have n2: "next_free ?h2 = 1" using n0 by simp
  have b1: "fst (search_state (example_buffer_control ''foo'' 0) ?h2) = 1"
    using t2 [THEN conjunct1] n2 by simp
  have "objects (snd (search_state (example_buffer_control ''foo'' 0) ?h2))
          (fst (search_state (example_buffer_control ''foo'' 0) ?h2)) = SearchState_default"
    using t2 [THEN conjunct2, THEN conjunct1] .
  then have b2: "objects (snd (search_state (example_buffer_control ''foo'' 0) ?h2)) 1
                   = SearchState_default"
    unfolding b1 .
  show ?thesis using a b1 b2 by blast
qed

subsection \<open>Mouse events before anything was rendered\<close>

lemma BufferControl_mouse_handler_not_rendered:
  "current_control ap = bc_id self \<Longrightarrow> last_get_processed_line self = None \<Longrightarrow>
   BufferControl_mouse_handler ap dops now self mouse_event = (Inr PyNone, self, ap)"
  by (simp add: BufferControl_mouse_handler_def)

text \<open>
  C4. A focused \<open>BufferControl\<close> that has rendered nothing yet answers a mouse event
  with \<open>None\<close>, which means handled, and not with \<open>NotImplemented\<close>: the branch
  ends without a \<open>return\<close>. Nothing is raised and nothing changes. (A
  \<open>FormattedTextControl\<close> does return \<open>NotImplemented\<close> in both cases of the
  claim: \<open>FormattedTextControl_mouse_handler_not_rendered\<close> and
  \<open>FormattedTextControl_mouse_handler_past_lines\<close>.)
\<close>

theorem mouse_handler_not_rendered_returns_None:
  "BufferControl_mouse_handler app0 line_document_ops 0 (example_buffer_control ''hello'' 0)
     \<lparr> position = Point 0 0, event_type = MOUSE_DOWN \<rparr> =
   (Inr PyNone, example_buffer_control ''hello'' 0, app0) \<and>
   Inr PyNone \<noteq> (Inr NotImplemented :: py_error + mouse_result)"
  by (simp add: BufferControl_mouse_handler_def app0_def example_buffer_control_def)

subsection \<open>The memo table of the processed lines\<close>

lemma get_processed_line_memo_value:
  assumes "memo_ok lexed_line tf cache"
  shows "fst (get_processed_line_memo lexed_line tf cache i) = get_processed_line lexed_line tf i"
    and "memo_ok lexed_line tf (snd (get_processed_line_memo lexed_line tf cache i))"
proof -
  show "fst (get_processed_line_memo lexed_line tf cache i) = get_processed_line lexed_line tf i"
  proof (cases "cache i")
    case None
    then show ?thesis
      by (simp add: get_processed_line_memo_def get_processed_line_def split: sum.split)
  next
    case (Some pl)
    with assms have "get_processed_line lexed_line tf i = Inr pl" by (simp add: memo_ok_def)
    with Some show ?thesis by (simp add: get_processed_line_memo_def)
  qed
  show "memo_ok lexed_line tf (snd (get_processed_line_memo lexed_line tf cache i))"
  proof (cases "cache i")
    case None
    show ?thesis
    proof (cases "lexed_line i")
      case (Inl e)
      with None assms show ?thesis by (simp add: get_processed_line_memo_def)
    next
      case (Inr frs)
      with None assms show ?thesis
        by (simp add: get_processed_line_memo_def memo_ok_def get_processed_line_def)
    qed
  next
    case (Some pl)
    with assms show ?thesis by (simp add: get_processed_line_memo_def)
  qed
qed

lemma memo_ok_empty: "memo_ok lexed_line tf Map.empty"
  by (simp add: memo_ok_def)

subsection \<open>What rendering leaves as it is\<close>

lemma get_formatted_text_for_line_func_buffer:
  "bc_buffer (snd (get_formatted_text_for_line_func self document)) = bc_buffer self"
  "bc_id (snd (get_formatted_text_for_line_func self document)) = bc_id self"
  "bc_menu_position (snd (get_formatted_text_for_line_func self document)) = bc_menu_position self"
  by (simp_all add: get_formatted_text_for_line_func_def split_beta)

lemma create_get_processed_line_func_buffer:
  "bc_buffer (snd (create_get_processed_line_func mp self document width height)) = bc_buffer self"
  "bc_id (snd (create_get_processed_line_func mp self document width height)) = bc_id self"
  "bc_menu_position (snd (create_get_processed_line_func mp self document width height))
     = bc_menu_position self"
  by (simp_all add: create_get_processed_line_func_def split_beta
      get_formatted_text_for_line_func_buffer)

text \<open>
  Whatever the outcome, \<open>render_document\<close> returns the control with a new lexer cache
  and the new \<open>last_get_processed_line\<close>, and nothing else changed.
\<close>

lemma render_document_control:
  "snd (render_document ap dops mp self document width height) =
     (snd (create_get_processed_line_func mp self document width height))
       \<lparr>last_get_processed_line :=
          Some (fst (create_get_processed_line_func mp self document width height))\<rparr>"
  by (simp add: render_document_def Let_def split_beta split: sum.split option.split)

lemma render_document_buffer:
  "bc_buffer (snd (render_document ap dops mp self document width height)) = bc_buffer self"
  by (simp add: render_document_control create_get_processed_line_func_buffer)

lemma render_document_get_line:
  assumes "fst (render_document ap dops mp self document width height) = Inr content"
  shows "get_line content =
           content_get_line (fst (create_get_processed_line_func mp self document width height))"
  using assms
  by (auto simp: render_document_def Let_def split_beta UIContent_init_def
      split: sum.splits option.splits if_splits)

lemma create_content_buffer:
  "bc_buffer (fst (snd (BufferControl_create_content ap dops mp self heap width height arg)))
     = bc_buffer self"
  by (simp add: BufferControl_create_content_def split_beta render_document_buffer
      split: prod.split sum.split)

subsection \<open>The lines of a rendered buffer\<close>

text \<open>
  C9. When \<open>BufferControl.create_content\<close> returns a content, the control has
  recorded the function that gives the processed lines, and for every line index at
  which that function gives a processed line, \<open>get_line\<close> of the content returns the
  fragments of that processed line followed by the one fragment \<open>('', ' ')\<close>. Where the
  function raises, \<open>get_line\<close> raises the same error.
\<close>

theorem create_content_appends_space:
  assumes "fst (BufferControl_create_content ap dops mp self heap width height arg) = Inr content"
  shows "\<exists>gpl. last_get_processed_line
                 (fst (snd (BufferControl_create_content ap dops mp self heap width height arg)))
                 = Some gpl \<and>
           (\<forall>i pl. gpl i = Inr pl \<longrightarrow> get_line content i = Inr (pl_fragments pl @ [('''', '' '')])) \<and>
           (\<forall>i e. gpl i = Inl e \<longrightarrow> get_line content i = Inl e)"
proof (cases "document_to_show ap dops self heap arg")
  case (Pair d heap1)
  show ?thesis
  proof (cases d)
    case (Inl e)
    with Pair assms show ?thesis by (simp add: BufferControl_create_content_def)
  next
    case (Inr document)
    let ?g = "fst (create_get_processed_line_func mp self document width height)"
    from Pair Inr assms
    have r: "fst (render_document ap dops mp self document width height) = Inr content"
      by (simp add: BufferControl_create_content_def split_beta)
    have c: "fst (snd (BufferControl_create_content ap dops mp self heap width height arg)) =
             snd (render_document ap dops mp self document width height)"
      using Pair Inr by (simp add: BufferControl_create_content_def split_beta)
    have "last_get_processed_line
            (fst (snd (BufferControl_create_content ap dops mp self heap width height arg))) = Some ?g"
      unfolding c by (simp add: render_document_control)
    moreover have "get_line content = content_get_line ?g"
      using r by (rule render_document_get_line)
    ultimately show ?thesis by (auto simp: content_get_line_def)
  qed
qed

lemma render_document_plain:
  assumes "fst (create_get_processed_line_func mp self document width height)
             (cursor_position_row dops document) = Inr pl"
    and "bc_menu_position self = None" and "complete_state (bc_buffer self) = None"
  shows "fst (render_document ap dops mp self document width height) =
           Inr (UIContent_init
                  (content_get_line (fst (create_get_processed_line_func mp self document width height)))
                  (document_line_count dops document)
                  (Some (Point (pl_source_to_display pl (cursor_position_col dops document))
                           (cursor_position_row dops document)))
                  None True)"
  using assms
  by (simp add: render_document_def Let_def split_beta translate_rowcol_def
      create_get_processed_line_func_buffer UIContent_init_def)

lemma line_document_ops_simps:
  "cursor_position_row line_document_ops d = 0"
  "cursor_position_col line_document_ops d = doc_cursor_position d"
  "document_line_count line_document_ops d = 1"
  "translate_index_to_position line_document_ops d i = (0, i)"
  "translate_row_col_to_index line_document_ops d row col = max 0 (min col (int (length (doc_text d))))"
  by (simp_all add: line_document_ops_def)

lemma example_buffer_control_simps:
  "bc_id (example_buffer_control txt cur) = 0"
  "bc_menu_position (example_buffer_control txt cur) = None"
  "bc_fragment_cache (example_buffer_control txt cur) = SimpleCache_init 8"
  "bc_lexer (example_buffer_control txt cur) = line_lexer"
  "search_buffer_control (example_buffer_control txt cur) = None"
  "last_click_timestamp (example_buffer_control txt cur) = None"
  "bc_buffer (example_buffer_control txt cur) =
     \<lparr> buffer_text = txt, buffer_cursor_position = cur,
       selection_state = None, complete_state = None \<rparr>"
  by (simp_all add: example_buffer_control_def)

lemma example_document_to_show:
  "document_to_show app0 line_document_ops (example_buffer_control txt cur) heap0 False =
     (Inr (buffer_document (bc_buffer (example_buffer_control txt cur))), heap0)"
  by (simp add: document_to_show_def preview_now_def example_buffer_control_def)

lemma example_processed_line:
  "fst (create_get_processed_line_func no_stages self d width height) 0 =
     (case lex_document (bc_lexer self) d 0 of
        Inl e \<Rightarrow> Inl e
      | Inr frs \<Rightarrow> Inr \<lparr> pl_fragments = frs, pl_source_to_display = (\<lambda>i. i),
                          pl_display_to_source = (\<lambda>i. i) \<rparr>)"
  if "bc_fragment_cache self = SimpleCache_init 8"
  using that
  by (simp add: create_get_processed_line_func_def get_formatted_text_for_line_func_def
      SimpleCache_get_def SimpleCache_init_def Let_def get_processed_line_def transform_def
      merged_processor_def no_stages_def split: sum.split)

text \<open>The one-line buffer \<open>foo bar\<close>: line 0 is the text and then the space.\<close>

theorem create_content_appends_space_witness:
  "map_sum id (\<lambda>c. get_line c 0)
     (fst (BufferControl_create_content app0 line_document_ops no_stages
             (example_buffer_control ''foo bar'' 0) heap0 80 None False))
   = Inr (Inr [('''', ''foo bar''), ('''', '' '')])"
proof -
  let ?c = "example_buffer_control ''foo bar'' 0"
  let ?d = "buffer_document (bc_buffer ?c)"
  let ?r = "BufferControl_create_content app0 line_document_ops no_stages ?c heap0 80 None False"
  let ?g = "fst (create_get_processed_line_func no_stages ?c ?d 80 None)"
  have g0: "?g 0 = Inr \<lparr> pl_fragments = [('''', ''foo bar'')], pl_source_to_display = (\<lambda>i. i),
                          pl_display_to_source = (\<lambda>i. i) \<rparr>"
    by (subst example_processed_line)
       (simp_all add: example_buffer_control_simps line_lexer_def buffer_document_def)
  have rd: "?r = (fst (render_document app0 line_document_ops no_stages ?c ?d 80 None),
                  snd (render_document app0 line_document_ops no_stages ?c ?d 80 None), heap0)"
    by (simp add: BufferControl_create_content_def example_document_to_show split_beta)
  have last: "last_get_processed_line (fst (snd ?r)) = Some ?g"
    unfolding rd by (simp add: render_document_control)
  have "fst (render_document app0 line_document_ops no_stages ?c ?d 80 None) =
           Inr (UIContent_init (content_get_line ?g) (document_line_count line_document_ops ?d)
                  (Some (Point (pl_source_to_display
                                  \<lparr> pl_fragments = [('''', ''foo bar'')], pl_source_to_display = (\<lambda>i. i),
                                    pl_display_to_source = (\<lambda>i. i) \<rparr>
                                  (cursor_position_col line_document_ops ?d))
                           (cursor_position_row line_document_ops ?d)))
                  None True)"
  proof (rule render_document_plain)
    show "?g (cursor_position_row line_document_ops ?d) =
            Inr \<lparr> pl_fragments = [('''', ''foo bar'')], pl_source_to_display = (\<lambda>i. i),
                  pl_display_to_source = (\<lambda>i. i) \<rparr>"
      using g0 by (simp only: line_document_ops_simps)
  qed (simp_all add: example_buffer_control_simps)
  then obtain content where ok: "fst ?r = Inr content"
    unfolding rd by simp
  from create_content_appends_space [OF ok] last
  have "\<forall>i pl. ?g i = Inr pl \<longrightarrow> get_line content i = Inr (pl_fragments pl @ [('''', '' '')])"
    by auto
  with g0 have "get_line content 0 = Inr [('''', ''foo bar''), ('''', '' '')]" by simp
  with ok show ?thesis by simp
qed

subsection \<open>Rendering the search preview\<close>

text \<open>
  C7. When the preview filter is on, a search control with a non-empty text is attached
  and this control is the search target, \<open>BufferControl.create_content\<close> renders the
  document that \<open>buffer.document_for_search\<close> derives for the text of the search
  buffer and the direction and case-sensitivity of the shared search state. The
  control's buffer (text, cursor position and selection) and the store of search states
  are the same after the call, whether it returns a content or raises.
\<close>

theorem create_content_search_preview:
  fixes self :: BufferControl and ap :: app and dops :: document_ops and heap :: ss_heap
    and sc :: SearchBufferControl
  assumes "preview_search self" and "search_buffer_control self = Some sc"
    and "buffer_text (sbc_buffer sc) \<noteq> []"
    and "search_target_buffer_control ap = bc_id self"
  defines "shown \<equiv> document_for_search dops (bc_buffer self)
                      (SearchState_init (buffer_text (sbc_buffer sc))
                         (direction (objects heap (searcher_search_state sc)))
                         (ignore_case (objects heap (searcher_search_state sc))))"
  shows "fst (BufferControl_create_content ap dops mp self heap width height arg) =
           fst (render_document ap dops mp self shown width height) \<and>
         bc_buffer (fst (snd (BufferControl_create_content ap dops mp self heap width height arg)))
           = bc_buffer self \<and>
         snd (snd (BufferControl_create_content ap dops mp self heap width height arg)) = heap"
proof -
  have "preview_now ap self arg" using assms(1-4) by (simp add: preview_now_def)
  then have "document_to_show ap dops self heap arg = (Inr shown, heap)"
    using assms(2) unfolding shown_def by (simp add: document_to_show_def search_state_def)
  then show ?thesis
    by (simp add: BufferControl_create_content_def split_beta render_document_buffer)
qed

lemma example_search_document:
  "document_for_search line_document_ops
     \<lparr> buffer_text = ''foo bar'', buffer_cursor_position = 0, selection_state = None,
       complete_state = None \<rparr>
     (SearchState_init ''ba'' FORWARD False) =
   \<lparr> doc_text = ''foo bar'', doc_cursor_position = 4, doc_selection = None \<rparr>"
  by (simp add: line_document_ops_def SearchState_init_def buffer_document_def prefix_code)

lemma preview_control_simps:
  "bc_id (preview_control txt cur) = 0"
  "preview_search (preview_control txt cur)"
  "bc_menu_position (preview_control txt cur) = None"
  "bc_fragment_cache (preview_control txt cur) = SimpleCache_init 8"
  "bc_lexer (preview_control txt cur) = line_lexer"
  "search_buffer_control (preview_control txt cur) =
     Some \<lparr> sbc_buffer = \<lparr> buffer_text = ''ba'', buffer_cursor_position = 2,
                          selection_state = None, complete_state = None \<rparr>,
            searcher_search_state = 0 \<rparr>"
  "bc_buffer (preview_control txt cur) =
     \<lparr> buffer_text = txt, buffer_cursor_position = cur,
       selection_state = None, complete_state = None \<rparr>"
  by (simp_all add: preview_control_def example_buffer_control_def)

text \<open>
  Searching \<open>ba\<close> in \<open>foo bar\<close> with the cursor at 0: the content shows the cursor at
  column 4, where the match is, and the buffer still has its cursor at 0 and no
  selection.
\<close>

theorem create_content_search_preview_witness:
  "map_sum id cursor_position
     (fst (BufferControl_create_content app0 line_document_ops no_stages
             (preview_control ''foo bar'' 0) heap0 80 None False)) = Inr (Point 4 0) \<and>
   bc_buffer (fst (snd (BufferControl_create_content app0 line_document_ops no_stages
             (preview_control ''foo bar'' 0) heap0 80 None False))) =
     \<lparr> buffer_text = ''foo bar'', buffer_cursor_position = 0, selection_state = None,
       complete_state = None \<rparr>"
proof -
  let ?c = "preview_control ''foo bar'' 0"
  let ?sc = "\<lparr> sbc_buffer = \<lparr> buffer_text = ''ba'', buffer_cursor_position = 2,
                          selection_state = None, complete_state = None \<rparr>,
                 searcher_search_state = 0 \<rparr>"
  let ?d = "\<lparr> doc_text = ''foo bar'', doc_cursor_position = 4, doc_selection = None \<rparr>"
  let ?g = "fst (create_get_processed_line_func no_stages ?c ?d 80 None)"
  have shown: "document_for_search line_document_ops (bc_buffer ?c)
                 (SearchState_init (buffer_text (sbc_buffer ?sc))
                    (direction (objects heap0 (searcher_search_state ?sc)))
                    (ignore_case (objects heap0 (searcher_search_state ?sc)))) = ?d"
    using example_search_document
    by (simp add: preview_control_simps heap0_def SearchState_default_def SearchState_init_def)
  have inst: "fst (BufferControl_create_content app0 line_document_ops no_stages ?c heap0 80 None False)
             = fst (render_document app0 line_document_ops no_stages ?c ?d 80 None) \<and>
           bc_buffer (fst (snd (BufferControl_create_content app0 line_document_ops no_stages ?c
                                  heap0 80 None False))) = bc_buffer ?c"
    using create_content_search_preview
      [where self = ?c and sc = ?sc and ap = app0 and dops = line_document_ops and heap = heap0
         and mp = no_stages and width = 80 and height = None and arg = False]
    unfolding shown
    by (simp add: preview_control_simps app0_def)
  have g0: "?g 0 = Inr \<lparr> pl_fragments = [('''', ''foo bar'')], pl_source_to_display = (\<lambda>i. i),
                          pl_display_to_source = (\<lambda>i. i) \<rparr>"
    by (subst example_processed_line)
       (simp_all add: preview_control_simps line_lexer_def)
  have "fst (render_document app0 line_document_ops no_stages ?c ?d 80 None) =
           Inr (UIContent_init (content_get_line ?g) (document_line_count line_document_ops ?d)
                  (Some (Point (pl_source_to_display
                                  \<lparr> pl_fragments = [('''', ''foo bar'')], pl_source_to_display = (\<lambda>i. i),
                                    pl_display_to_source = (\<lambda>i. i) \<rparr>
                                  (cursor_position_col line_document_ops ?d))
                           (cursor_position_row line_document_ops ?d)))
                  None True)"
  proof (rule render_document_plain)
    show "?g (cursor_position_row line_document_ops ?d) =
            Inr \<lparr> pl_fragments = [('''', ''foo bar'')], pl_source_to_display = (\<lambda>i. i),
                  pl_display_to_source = (\<lambda>i. i) \<rparr>"
      using g0 by (simp only: line_document_ops_simps)
  qed (simp_all add: preview_control_simps)
  then have "map_sum id cursor_position
               (fst (render_document app0 line_document_ops no_stages ?c ?d 80 None)) = Inr (Point 4 0)"
    by (simp add: UIContent_init_def line_document_ops_simps)
  with inst show ?thesis by (simp add: preview_control_simps)
qed

subsection \<open>Press and release on a focused, rendered control\<close>

lemma mouse_handler_press:
  assumes "current_control ap = bc_id self" and "last_get_processed_line self = Some gpl"
    and "gpl (point_y (position ev)) = Inr pl" and "event_type ev = MOUSE_DOWN"
  shows "BufferControl_mouse_handler ap dops now self ev =
           (Inr PyNone,
            self\<lparr>bc_buffer :=
                   set_cursor_position
                     (translate_row_col_to_index dops (buffer_document (bc_buffer self))
                        (point_y (position ev)) (pl_display_to_source pl (point_x (position ev))))
                     (exit_selection (bc_buffer self))\<rparr>,
            ap)"
  using assms by (simp add: BufferControl_mouse_handler_def Let_def)

lemma mouse_handler_release:
  assumes "current_control ap = bc_id self" and "last_get_processed_line self = Some gpl"
    and "gpl (point_y (position ev)) = Inr pl" and "event_type ev = MOUSE_UP"
  shows "BufferControl_mouse_handler ap dops now self ev =
           (Inr PyNone,
            self\<lparr>bc_buffer :=
                   (if is_double_click (last_click_timestamp self) now
                    then select_word dops
                           (select_on_release (bc_buffer self)
                              (translate_row_col_to_index dops (buffer_document (bc_buffer self))
                                 (point_y (position ev))
                                 (pl_display_to_source pl (point_x (position ev)))))
                    else select_on_release (bc_buffer self)
                           (translate_row_col_to_index dops (buffer_document (bc_buffer self))
                              (point_y (position ev))
                              (pl_display_to_source pl (point_x (position ev))))),
                 last_click_timestamp := Some now\<rparr>,
            ap)"
  using assms by (simp add: BufferControl_mouse_handler_def Let_def)

text \<open>
  C5. On a focused control that has rendered, with \<open>index\<close> the offset that
  \<open>translate_row_col_to_index\<close> gives for row \<open>y\<close> and the column to which the
  recorded \<open>display_to_source\<close> of line \<open>y\<close> maps \<open>x\<close>: a press clears the selection
  and puts the cursor at \<open>index\<close>. A release whose \<open>index\<close> is more than 1 away from
  the cursor starts a selection of characters at the cursor and moves the cursor to
  \<open>index\<close>; unless the release counts as a double click, that is the buffer the
  handler leaves, and its selection spans from the smaller to the larger of the two
  offsets. On a double click the word selection is applied to that buffer.
\<close>

theorem mouse_press_then_release:
  fixes self :: BufferControl and ap :: app and dops :: document_ops and ev :: MouseEvent
    and pl :: ProcessedLine and now :: real
  assumes focused: "current_control ap = bc_id self"
    and rendered: "last_get_processed_line self = Some gpl"
    and line: "gpl (point_y (position ev)) = Inr pl"
  defines "index \<equiv> translate_row_col_to_index dops (buffer_document (bc_buffer self))
                      (point_y (position ev)) (pl_display_to_source pl (point_x (position ev)))"
  defines "dragged \<equiv> (bc_buffer self)
                        \<lparr>buffer_cursor_position := index,
                         selection_state := Some (buffer_cursor_position (bc_buffer self), CHARACTERS)\<rparr>"
  shows
    "(event_type ev = MOUSE_DOWN \<longrightarrow>
        BufferControl_mouse_handler ap dops now self ev =
          (Inr PyNone,
           self\<lparr>bc_buffer := (bc_buffer self)\<lparr>buffer_cursor_position := index,
                                              selection_state := None\<rparr>\<rparr>,
           ap)) \<and>
     (event_type ev = MOUSE_UP \<and> 1 < \<bar>buffer_cursor_position (bc_buffer self) - index\<bar> \<longrightarrow>
        (\<not> is_double_click (last_click_timestamp self) now \<longrightarrow>
           BufferControl_mouse_handler ap dops now self ev =
             (Inr PyNone, self\<lparr>bc_buffer := dragged, last_click_timestamp := Some now\<rparr>, ap) \<and>
           selection_range dragged =
             Some (min (buffer_cursor_position (bc_buffer self)) index,
                   max (buffer_cursor_position (bc_buffer self)) index)) \<and>
        (is_double_click (last_click_timestamp self) now \<longrightarrow>
           BufferControl_mouse_handler ap dops now self ev =
             (Inr PyNone,
              self\<lparr>bc_buffer := select_word dops dragged, last_click_timestamp := Some now\<rparr>, ap)))"
proof -
  have down: "event_type ev = MOUSE_DOWN \<Longrightarrow>
      BufferControl_mouse_handler ap dops now self ev =
        (Inr PyNone,
         self\<lparr>bc_buffer := (bc_buffer self)\<lparr>buffer_cursor_position := index,
                                            selection_state := None\<rparr>\<rparr>, ap)"
    using mouse_handler_press [OF focused rendered line, of dops now]
    unfolding index_def by (simp add: set_cursor_position_def exit_selection_def)
  have sel: "1 < \<bar>buffer_cursor_position (bc_buffer self) - index\<bar> \<Longrightarrow>
      select_on_release (bc_buffer self) index = dragged"
    unfolding dragged_def
    by (simp add: select_on_release_def set_cursor_position_def start_selection_def)
  have up: "event_type ev = MOUSE_UP \<Longrightarrow> 1 < \<bar>buffer_cursor_position (bc_buffer self) - index\<bar> \<Longrightarrow>
      BufferControl_mouse_handler ap dops now self ev =
        (Inr PyNone,
         self\<lparr>bc_buffer := (if is_double_click (last_click_timestamp self) now
                              then select_word dops dragged else dragged),
              last_click_timestamp := Some now\<rparr>, ap)"
    using mouse_handler_release [OF focused rendered line, of dops now] sel
    unfolding index_def by simp
  have range: "selection_range dragged =
      Some (min (buffer_cursor_position (bc_buffer self)) index,
            max (buffer_cursor_position (bc_buffer self)) index)"
    unfolding dragged_def by (simp add: selection_range_def)
  show ?thesis using down up range by simp
qed

lemma rendered_control_eq:
  "rendered_control txt cur =
     (example_buffer_control txt cur)
       \<lparr>bc_fragment_cache :=
          snd (SimpleCache_get (SimpleCache_init 8) (txt, 0)
                 (lex_document line_lexer
                    \<lparr> doc_text = txt, doc_cursor_position = cur, doc_selection = None \<rparr>)),
        last_get_processed_line :=
          Some (fst (create_get_processed_line_func no_stages (example_buffer_control txt cur)
                       \<lparr> doc_text = txt, doc_cursor_position = cur, doc_selection = None \<rparr>
                       80 None))\<rparr>"
  by (simp add: rendered_control_def BufferControl_create_content_def example_document_to_show
      split_beta render_document_control example_buffer_control_simps buffer_document_def
      create_get_processed_line_func_def get_formatted_text_for_line_func_def line_lexer_def)

lemma rendered_line:
  "fst (create_get_processed_line_func no_stages (example_buffer_control txt cur)
          \<lparr> doc_text = txt, doc_cursor_position = cur, doc_selection = None \<rparr> 80 None) 0 =
     Inr \<lparr> pl_fragments = [('''', txt)], pl_source_to_display = (\<lambda>i. i),
           pl_display_to_source = (\<lambda>i. i) \<rparr>"
  by (subst example_processed_line)
     (simp_all add: example_buffer_control_simps line_lexer_def)

text \<open>
  The buffer \<open>foo bar\<close> with the cursor at 5 and a selection from 2: a press at column
  0 leaves the cursor at 0 and no selection; a release at column 3, a second later,
  leaves a selection of characters from 0 with the cursor at 3, the range \<open>[0, 3)\<close>.
\<close>

theorem mouse_press_then_release_witness:
  "bc_buffer (after_mouse_event 10 (selected_control ''foo bar'' 5)
                \<lparr> position = Point 0 0, event_type = MOUSE_DOWN \<rparr>) =
     \<lparr> buffer_text = ''foo bar'', buffer_cursor_position = 0, selection_state = None,
       complete_state = None \<rparr> \<and>
   bc_buffer (after_mouse_event 11
                (after_mouse_event 10 (selected_control ''foo bar'' 5)
                   \<lparr> position = Point 0 0, event_type = MOUSE_DOWN \<rparr>)
                \<lparr> position = Point 3 0, event_type = MOUSE_UP \<rparr>) =
     \<lparr> buffer_text = ''foo bar'', buffer_cursor_position = 3,
       selection_state = Some (0, CHARACTERS), complete_state = None \<rparr> \<and>
   selection_range
     (bc_buffer (after_mouse_event 11
                (after_mouse_event 10 (selected_control ''foo bar'' 5)
                   \<lparr> position = Point 0 0, event_type = MOUSE_DOWN \<rparr>)
                \<lparr> position = Point 3 0, event_type = MOUSE_UP \<rparr>)) = Some (0, 3)"
proof -
  let ?g = "fst (create_get_processed_line_func no_stages (example_buffer_control ''foo bar'' 5)
                   \<lparr> doc_text = ''foo bar'', doc_cursor_position = 5, doc_selection = None \<rparr>
                   80 None)"
  let ?pl = "\<lparr> pl_fragments = [('''', ''foo bar'')], pl_source_to_display = (\<lambda>i. i),
                pl_display_to_source = (\<lambda>i. i) \<rparr>"
  let ?c1 = "selected_control ''foo bar'' 5"
  let ?press = "\<lparr> position = Point 0 0, event_type = MOUSE_DOWN \<rparr>"
  let ?release = "\<lparr> position = Point 3 0, event_type = MOUSE_UP \<rparr>"
  let ?b1 = "\<lparr> buffer_text = ''foo bar'', buffer_cursor_position = 5,
                selection_state = Some (2, CHARACTERS), complete_state = None \<rparr>"
  let ?b2 = "\<lparr> buffer_text = ''foo bar'', buffer_cursor_position = 0, selection_state = None,
                complete_state = None \<rparr>"
  let ?b3 = "\<lparr> buffer_text = ''foo bar'', buffer_cursor_position = 3,
                selection_state = Some (0, CHARACTERS), complete_state = None \<rparr>"
  have c1: "current_control app0 = bc_id ?c1" "last_get_processed_line ?c1 = Some ?g"
    "bc_buffer ?c1 = ?b1" "last_click_timestamp ?c1 = None"
    by (simp_all add: selected_control_def rendered_control_eq example_buffer_control_simps
        app0_def example_buffer_control_def)
  have g0: "?g 0 = Inr ?pl" by (rule rendered_line)
  have line1: "?g (point_y (position ?press)) = Inr ?pl" using g0 by simp
  have press: "BufferControl_mouse_handler app0 line_document_ops 10 ?c1 ?press =
                 (Inr PyNone, ?c1\<lparr>bc_buffer := ?b2\<rparr>, app0)"
    using mouse_press_then_release [OF c1(1) c1(2) line1, of line_document_ops 10,
            THEN conjunct1]
    by (simp add: c1 line_document_ops_simps buffer_document_def)
  then have c2_eq: "after_mouse_event 10 ?c1 ?press = ?c1\<lparr>bc_buffer := ?b2\<rparr>"
    by (simp add: after_mouse_event_def)
  let ?c2 = "?c1\<lparr>bc_buffer := ?b2\<rparr>"
  have c2: "current_control app0 = bc_id ?c2" "last_get_processed_line ?c2 = Some ?g"
    "bc_buffer ?c2 = ?b2" "last_click_timestamp ?c2 = None"
    using c1 by simp_all
  have line2: "?g (point_y (position ?release)) = Inr ?pl" using g0 by simp
  have release: "BufferControl_mouse_handler app0 line_document_ops 11 ?c2 ?release =
                 (Inr PyNone, ?c2\<lparr>bc_buffer := ?b3, last_click_timestamp := Some 11\<rparr>, app0) \<and>
               selection_range ?b3 = Some (0, 3)"
    using mouse_press_then_release [OF c2(1) c2(2) line2, of line_document_ops 11,
            THEN conjunct2]
    by (simp add: c2 line_document_ops_simps buffer_document_def is_double_click_def)
  then have c3_eq: "bc_buffer (after_mouse_event 11 ?c2 ?release) = ?b3"
    by (simp add: after_mouse_event_def)
  show ?thesis
    unfolding c2_eq using c3_eq release by simp
qed

subsection \<open>Double click\<close>




end
